theory Spec2Isabelle
  imports Complex_Main "HOL-Library.Word" "HOL-Library.AList" "HOL-Library.Char_ord"
    "HOL-Library.List_Lexorder"
begin

section \<open>PCM codec (audioUtils)\<close>

text \<open>
  Samples, sample rates and clock times are JavaScript numbers. They are modelled as
  exact rationals: the rounding of IEEE-754 doubles and the values NaN and Infinity are
  outside the model. Typed arrays are lists. The base64 text of a blob is represented by
  the byte sequence it encodes (\<open>btoa\<close> and \<open>atob\<close> are the host's and inverse to each
  other), so \<open>uint8ArrayToBase64\<close> and \<open>base64ToUint8Array\<close> are the identity on it.
\<close>

datatype exn = Error string | RangeError string | DataError string | NotSupportedError string

text \<open>\<open>Math.round\<close>: the nearest integer, a tie going up.\<close>

definition Math_round :: "rat \<Rightarrow> int" where
  "Math_round x = \<lfloor>x + 1 / 2\<rfloor>"

text \<open>Storing a number into an \<open>Int16Array\<close>: truncation towards zero, then wrap to 16 bits.\<close>

definition ToInt16 :: "rat \<Rightarrow> 16 word" where
  "ToInt16 x = word_of_int (if x < 0 then - \<lfloor>- x\<rfloor> else \<lfloor>x\<rfloor>)"

text \<open>The \<open>Uint8Array\<close> view of an \<open>Int16Array\<close>'s buffer (little-endian host) and back.\<close>

fun int16_to_bytes :: "16 word list \<Rightarrow> 8 word list" where
  "int16_to_bytes [] = []"
| "int16_to_bytes (w # ws) = ucast w # ucast (drop_bit 8 w) # int16_to_bytes ws"

fun bytes_to_int16 :: "8 word list \<Rightarrow> 16 word list" where
  "bytes_to_int16 (lo # hi # bs) = (word_cat hi lo) # bytes_to_int16 bs"
| "bytes_to_int16 _ = []"

record AudioBuffer =
  sampleRate :: rat
  channelData :: "rat list list"

text \<open>\<open>AudioBuffer.length\<close>: the number of sample frames.\<close>

definition buffer_length :: "AudioBuffer \<Rightarrow> nat" where
  "buffer_length b = (case channelData b of [] \<Rightarrow> 0 | c # _ \<Rightarrow> length c)"

text \<open>
  An \<open>AudioContext\<close>, as far as the codec and the component read it: the rate its
  \<open>sampleRate\<close> reports, and the limits of the host's \<open>createBuffer\<close>. Every host
  accepts 1 to 32 channels and rates from 8000 to 96000; a host may accept more.
\<close>

record AudioContext =
  ctx_sampleRate :: rat
  ctx_maxChannels :: nat
  ctx_minRate :: rat
  ctx_maxRate :: rat

definition conforming :: "AudioContext \<Rightarrow> bool" where
  "conforming ctx = (32 \<le> ctx_maxChannels ctx \<and> ctx_minRate ctx \<le> 8000 \<and> 96000 \<le> ctx_maxRate ctx)"

text \<open>
  \<open>ctx.createBuffer(numberOfChannels, length, sampleRate)\<close>: a buffer of zeros, or a
  NotSupportedError when an argument is zero or outside the host's range.
\<close>

definition createBuffer :: "AudioContext \<Rightarrow> nat \<Rightarrow> nat \<Rightarrow> rat \<Rightarrow> exn + AudioBuffer" where
  "createBuffer ctx numberOfChannels len rate =
     (if numberOfChannels = 0 \<or> ctx_maxChannels ctx < numberOfChannels \<or> len = 0
         \<or> rate < ctx_minRate ctx \<or> ctx_maxRate ctx < rate
      then Inl (NotSupportedError ''createBuffer: argument outside its nominal range'')
      else Inr \<lparr> sampleRate = rate,
                 channelData = replicate numberOfChannels (replicate len 0) \<rparr>)"

text \<open>
  \<open>pcmToAudioBuffer\<close>. \<open>new Int16Array(data.buffer)\<close> throws a RangeError on an odd
  byte count. The frame count \<open>dataInt16.length / numChannels\<close> is truncated to an
  integer by \<open>createBuffer\<close>; the loops then fill every frame of every channel (a write
  beyond the buffer is ignored).
\<close>

definition pcmToAudioBuffer ::
  "8 word list \<Rightarrow> AudioContext \<Rightarrow> rat \<Rightarrow> nat \<Rightarrow> exn + AudioBuffer" where
  "pcmToAudioBuffer data' ctx sampleRate' numChannels =
     (if odd (length data') then Inl (RangeError ''byte length of Int16Array should be a multiple of 2'')
      else
        let dataInt16 = bytes_to_int16 data';
            frameCount = length dataInt16 div numChannels
        in case createBuffer ctx numChannels frameCount sampleRate' of
             Inl e \<Rightarrow> Inl e
           | Inr buffer \<Rightarrow>
               Inr (buffer\<lparr> channelData :=
                      map (\<lambda>channel.
                             map (\<lambda>i. rat_of_int (sint (dataInt16 ! (i * numChannels + channel))) / 32768)
                                 [0..<frameCount])
                          [0..<numChannels] \<rparr>))"

text \<open>
  \<open>downsampleBuffer\<close>: the same buffer at equal rates, an exception below the target
  rate, nearest-neighbour decimation above it. An index beyond the input leaves the
  zero the fresh \<open>Float32Array\<close> holds.
\<close>

definition downsampleBuffer :: "rat list \<Rightarrow> rat \<Rightarrow> rat \<Rightarrow> exn + rat list" where
  "downsampleBuffer buffer inputSampleRate targetSampleRate =
     (if inputSampleRate = targetSampleRate then Inr buffer
      else if inputSampleRate < targetSampleRate then Inl (Error ''Upsampling is not supported'')
      else
        let sampleRateRatio = inputSampleRate / targetSampleRate;
            newLength = Math_round (rat_of_nat (length buffer) / sampleRateRatio)
        in Inr (map (\<lambda>i. let originalIndex = Math_round (rat_of_nat i * sampleRateRatio)
                          in if originalIndex < int (length buffer)
                             then buffer ! nat originalIndex else 0)
                    [0..<nat newLength]))"

record Blob =
  data :: "8 word list"
  mimeType :: string

definition targetSampleRate :: rat where
  "targetSampleRate = 16000"

definition quantize :: "rat \<Rightarrow> 16 word" where
  "quantize x = (let s = max (- 1) (min 1 x)
                 in ToInt16 (if s < 0 then s * 32768 else s * 32767))"

definition float32To16BitPCM :: "rat list \<Rightarrow> rat \<Rightarrow> exn + Blob" where
  "float32To16BitPCM float32Data inputSampleRate =
     (case downsampleBuffer float32Data inputSampleRate targetSampleRate of
        Inl e \<Rightarrow> Inl e
      | Inr processedData \<Rightarrow>
          Inr \<lparr> data = int16_to_bytes (map quantize processedData),
                mimeType = ''audio/pcm;rate=16000'' \<rparr>)"

section \<open>Local durable store (memoryDb)\<close>

text \<open>
  An IndexedDB object store keeps one record per key and returns its records in
  ascending key order. It is modelled as the list \<open>getAll\<close> returns; \<open>idb_put\<close> is
  \<open>store.put\<close>: it inserts the record at its place in key order and replaces the
  record that has the same key. The key path is a function from records to keys.
\<close>

fun idb_put :: "('r \<Rightarrow> 'k::linorder) \<Rightarrow> 'r \<Rightarrow> 'r list \<Rightarrow> 'r list" where
  "idb_put keyPath r [] = [r]"
| "idb_put keyPath r (x # xs) =
     (if keyPath r < keyPath x then r # x # xs
      else if keyPath r = keyPath x then r # xs
      else x # idb_put keyPath r xs)"

text \<open>The invariant of an object store: strictly ascending keys.\<close>

definition idb_ok :: "('r \<Rightarrow> 'k::linorder) \<Rightarrow> 'r list \<Rightarrow> bool" where
  "idb_ok keyPath xs = sorted_wrt (<) (map keyPath xs)"

datatype Role = user | model

record ChatMessage =
  role :: Role
  msg_text :: string
  timestamp :: int

text \<open>
  A JavaScript object with primitive values, as the list of its own properties in the
  order \<open>Object.keys\<close> lists them: the array indices (canonical decimal numerals below
  \<open>2^32 - 1\<close>) in ascending numeric order, then the other keys in the order of their
  creation.
\<close>

type_synonym 'v UserProfile = "(string \<times> 'v) list"

definition is_digit :: "char \<Rightarrow> bool" where
  "is_digit c = (CHR ''0'' \<le> c \<and> c \<le> CHR ''9'')"

definition digits_value :: "string \<Rightarrow> int" where
  "digits_value s = foldl (\<lambda>n c. 10 * n + (of_char c - 48)) 0 s"

definition array_index :: "string \<Rightarrow> int option" where
  "array_index s =
     (if s = [] then None
      else if \<not> list_all is_digit s then None
      else if hd s = CHR ''0'' \<and> s \<noteq> ''0'' then None
      else if 4294967295 \<le> digits_value s then None
      else Some (digits_value s))"

fun insert_index :: "int \<Rightarrow> string \<Rightarrow> 'v \<Rightarrow> (string \<times> 'v) list \<Rightarrow> (string \<times> 'v) list" where
  "insert_index n k v [] = [(k, v)]"
| "insert_index n k v (p # rest) =
     (case array_index (fst p) of
        None \<Rightarrow> (k, v) # p # rest
      | Some m \<Rightarrow> if m < n then p # insert_index n k v rest else (k, v) # p # rest)"

text \<open>
  The assignment \<open>obj[k] = v\<close> on a plain object, for a primitive \<open>v\<close>. The key
  \<open>__proto__\<close> reaches the setter of \<open>Object.prototype\<close>, which ignores a primitive:
  no property is created. An existing property keeps its place.
\<close>

definition js_set :: "string \<Rightarrow> 'v \<Rightarrow> (string \<times> 'v) list \<Rightarrow> (string \<times> 'v) list" where
  "js_set k v obj =
     (if k = ''__proto__'' then obj
      else (case map_of obj k of
              Some old \<Rightarrow> AList.update k v obj
            | None \<Rightarrow> (case array_index k of
                         None \<Rightarrow> obj @ [(k, v)]
                       | Some n \<Rightarrow> insert_index n k v obj)))"

record 'v IDB =
  user_profile :: "(string \<times> 'v) list"
  conversation_history :: "ChatMessage list"

definition emptyDB :: "'v IDB" where
  "emptyDB = \<lparr> user_profile = [], conversation_history = [] \<rparr>"

definition db_ok :: "'v IDB \<Rightarrow> bool" where
  "db_ok db = (idb_ok fst (user_profile db) \<and> idb_ok timestamp (conversation_history db))"

text \<open>\<open>getUserProfile\<close>: the records \<open>{key, value}\<close> turned back into one object.\<close>

definition getUserProfile :: "'v IDB \<Rightarrow> 'v UserProfile" where
  "getUserProfile db =
     foldl (\<lambda>profile item. js_set (fst item) (snd item) profile) [] (user_profile db)"

text \<open>
  \<open>updateUserMemory\<close>. The key is \<open>None\<close> when the argument is not a valid IndexedDB key
  (\<open>undefined\<close>): then \<open>store.put\<close> throws a DataError and the promise rejects.
  Otherwise the promise resolves when the transaction has completed.
\<close>

definition updateUserMemory :: "string option \<Rightarrow> 'v \<Rightarrow> 'v IDB \<Rightarrow> exn + 'v IDB" where
  "updateUserMemory key v db =
     (case key of
        None \<Rightarrow> Inl (DataError ''Evaluating the object store's key path did not yield a value'')
      | Some k \<Rightarrow> Inr (db\<lparr> user_profile := idb_put fst (k, v) (user_profile db) \<rparr>))"

definition clearUserMemory :: "'v IDB \<Rightarrow> 'v IDB" where
  "clearUserMemory db = db\<lparr> user_profile := [] \<rparr>"

text \<open>\<open>addHistoryItem\<close>; \<open>now\<close> is what \<open>Date.now()\<close> returns at the call.\<close>

definition addHistoryItem :: "Role \<Rightarrow> string \<Rightarrow> int \<Rightarrow> 'v IDB \<Rightarrow> 'v IDB" where
  "addHistoryItem r t now db =
     db\<lparr> conversation_history :=
           idb_put timestamp \<lparr> role = r, msg_text = t, timestamp = now \<rparr> (conversation_history db) \<rparr>"

text \<open>\<open>Array.prototype.slice(start)\<close> for an integer \<open>start\<close>.\<close>

definition js_slice :: "int \<Rightarrow> 'a list \<Rightarrow> 'a list" where
  "js_slice start xs =
     (let len = int (length xs);
          k = (if start < 0 then max (len + start) 0 else min start len)
      in drop (nat k) xs)"

text \<open>\<open>getRecentHistory\<close>: a stable sort by timestamp, then \<open>slice(-limit)\<close>.\<close>

definition getRecentHistory :: "int \<Rightarrow> 'v IDB \<Rightarrow> ChatMessage list" where
  "getRecentHistory limit db = js_slice (- limit) (sort_key timestamp (conversation_history db))"

section \<open>Remote mirror (firebaseClient)\<close>

text \<open>
  The Firestore document \<open>aria_data/user_memory\<close>: \<open>None\<close> while it does not exist.
  Field values are primitive in the model, as the strings the tool contract declares.
  \<open>setDoc\<close> with \<open>{merge: true}\<close> writes the given fields into the document and keeps
  every other field of it.
\<close>

type_synonym 'v Firestore = "(string \<times> 'v) list option"

definition setDoc_merge :: "'v Firestore \<Rightarrow> (string \<times> 'v) list \<Rightarrow> 'v Firestore" where
  "setDoc_merge doc data' =
     (case doc of None \<Rightarrow> Some data' | Some old \<Rightarrow> Some (AList.merge old data'))"

text \<open>
  \<open>loadMemoryFromFirebase\<close>: \<open>null\<close> when Firestore cannot be initialised or the read
  throws (\<open>ok\<close> is False), the document's data when it exists, \<open>{}\<close> otherwise.
\<close>

definition loadMemoryFromFirebase :: "bool \<Rightarrow> 'v Firestore \<Rightarrow> (string \<times> 'v) list option" where
  "loadMemoryFromFirebase ok doc =
     (if \<not> ok then None else (case doc of Some d \<Rightarrow> Some d | None \<Rightarrow> Some []))"

text \<open>
  \<open>saveMemoryToFirebase\<close>, at the completion of the write: a failure (\<open>ok\<close> is False) is
  caught and logged, and leaves the document as it was.
\<close>

definition saveMemoryToFirebase :: "bool \<Rightarrow> (string \<times> 'v) list \<Rightarrow> 'v Firestore \<Rightarrow> 'v Firestore" where
  "saveMemoryToFirebase ok data' doc = (if ok then setDoc_merge doc data' else doc)"

section \<open>Session controller (VoiceAssistant)\<close>

datatype ConnectionState = DISCONNECTED | CONNECTING | CONNECTED | RECONNECTING | ERROR

record 'v FunctionCall =
  fc_id :: string
  fc_name :: string
  arg_key :: "string option"
  arg_value :: 'v

record FunctionResponse =
  resp_id :: string
  resp_name :: string
  resp_result :: string

record ServerContent =
  inputTranscription :: "string option"
  outputTranscription :: "string option"
  turnComplete :: bool
  inlineData :: "8 word list option"
  interrupted :: bool

record 'v LiveServerMessage =
  toolCall :: "'v FunctionCall list option"
  serverContent :: "ServerContent option"

text \<open>
  The calls the controller makes on its collaborators, in the order it issues them.
  A session is named by the number of the \<open>ai.live.connect\<close> call that created it, a
  timer and an audio source node by the number of their creation.
  \<open>StorePut k v\<close> is the completion of the profile transaction that stored \<open>(k, v)\<close>.
\<close>

datatype 'v effect =
    LiveConnect nat "(string \<times> 'v) list" "ChatMessage list"
  | SessionClose nat
  | SendRealtimeInput nat Blob
  | SendToolResponse nat "FunctionResponse list"
  | LoadMemoryFromFirebase
  | SaveMemoryToFirebase "(string \<times> 'v) list"
  | StorePut string 'v
  | SetTimeout nat nat
  | ClearTimeout nat
  | SourceStart nat rat rat
  | SourceStop nat

text \<open>
  The component's refs and state, the two stores, and the log of effects.
  \<open>timers\<close> are the pending timeouts (number, delay in milliseconds): the callback of
  each of them is \<open>connect(true)\<close>. \<open>workletPort\<close> is what the \<open>port.onmessage\<close>
  handler of the live worklet node has captured, the session it sends to and the
  sample rate it encodes from, \<open>None\<close> while no worklet node is wired to the
  microphone (a node that \<open>onopen\<close> or the cleanup has disconnected gets no input,
  and its processor posts nothing). The output gain node lives and dies with
  \<open>audioContextRef\<close>. \<open>pendingSaves\<close> are the \<open>saveMemoryToFirebase\<close> calls that have
  not completed. The credential is fixed, and the wake lock, the analysers and the
  grounding sources, which only feed the display, are left out.
\<close>

record 'v controller =
  apiKey :: string
  connectionState :: ConnectionState
  errorMessage :: string
  memoryData :: "(string \<times> 'v) list"
  audioContextRef :: "AudioContext option"
  audioInputContextRef :: "AudioContext option"
  micStream :: bool
  workletPort :: "(nat \<times> rat) option"
  sessionPromiseRef :: "nat option"
  isIntentionalClose :: bool
  retryTimeoutRef :: "nat option"
  nextStartTime :: rat
  activeSources :: "nat list"
  currentInputTrans :: string
  currentOutputTrans :: string
  timers :: "(nat \<times> nat) list"
  idb :: "'v IDB"
  firestore :: "'v Firestore"
  pendingSaves :: "(string \<times> 'v) list list"
  counter :: nat
  log :: "'v effect list"

text \<open>The component as mounted, for a given credential and given stores.\<close>

definition mounted :: "string \<Rightarrow> 'v IDB \<Rightarrow> 'v Firestore \<Rightarrow> 'v controller" where
  "mounted k db doc =
     \<lparr> apiKey = k, connectionState = DISCONNECTED, errorMessage = [], memoryData = getUserProfile db,
       audioContextRef = None, audioInputContextRef = None, micStream = False, workletPort = None,
       sessionPromiseRef = None, isIntentionalClose = False, retryTimeoutRef = None,
       nextStartTime = 0, activeSources = [], currentInputTrans = [], currentOutputTrans = [],
       timers = [], idb = db, firestore = doc, pendingSaves = [], counter = 0, log = [] \<rparr>"

text \<open>
  What the host decides during \<open>connect\<close>: whether the audio contexts can be created
  and resumed, the contexts \<open>new AudioContext\<close> returns when it is called, whether the
  microphone is granted, whether Firestore answers.
\<close>

record setup_env =
  audioOk :: bool
  outputContext :: AudioContext
  inputContext :: AudioContext
  micOk :: bool
  firebaseOk :: bool

text \<open>What the clocks read during one \<open>onmessage\<close>.\<close>

record message_env =
  dateNow_user :: int
  dateNow_model :: int
  currentTime :: rat

text \<open>\<open>retryTimeoutRef.current = window.setTimeout(() => connect(true), delay)\<close>.\<close>

definition setTimeout_connect :: "nat \<Rightarrow> 'v controller \<Rightarrow> 'v controller" where
  "setTimeout_connect delay st =
     st\<lparr> timers := timers st @ [(counter st, delay)],
         retryTimeoutRef := Some (counter st),
         counter := Suc (counter st),
         log := log st @ [SetTimeout (counter st) delay] \<rparr>"

definition clearTimeout :: "'v controller \<Rightarrow> 'v controller" where
  "clearTimeout st =
     (case retryTimeoutRef st of
        None \<Rightarrow> st
      | Some t \<Rightarrow> st\<lparr> timers := filter (\<lambda>p. fst p \<noteq> t) (timers st),
                       log := log st @ [ClearTimeout t] \<rparr>)"

definition fullCleanup :: "'v controller \<Rightarrow> 'v controller" where
  "fullCleanup st0 =
     (let st = clearTimeout st0
      in st\<lparr> micStream := False, workletPort := None,
             audioContextRef := None, audioInputContextRef := None,
             log := log st @ map SourceStop (activeSources st),
             activeSources := [], nextStartTime := 0 \<rparr>)"

definition closeSession :: "'v controller \<Rightarrow> 'v controller" where
  "closeSession st =
     (case sessionPromiseRef st of
        None \<Rightarrow> st
      | Some s \<Rightarrow> st\<lparr> sessionPromiseRef := None, log := log st @ [SessionClose s] \<rparr>)"

text \<open>The \<open>catch\<close> block of \<open>connect\<close>.\<close>

definition setupFailed :: "string \<Rightarrow> 'v controller \<Rightarrow> 'v controller" where
  "setupFailed msg st =
     (if \<not> isIntentionalClose st then setTimeout_connect 3000 st
      else fullCleanup (st\<lparr> errorMessage := msg, connectionState := ERROR \<rparr>))"

text \<open>\<open>await updateUserMemory(k, v)\<close> on the controller's store.\<close>

definition storePut :: "string option \<Rightarrow> 'v \<Rightarrow> 'v controller \<Rightarrow> exn + 'v controller" where
  "storePut key v st =
     (case updateUserMemory key v (idb st) of
        Inl e \<Rightarrow> Inl e
      | Inr db \<Rightarrow>
          Inr (st\<lparr> idb := db,
                   log := log st @ (case key of None \<Rightarrow> [] | Some k \<Rightarrow> [StorePut k v]) \<rparr>))"

text \<open>
  The block \<open>Sync Memory from Firebase\<close> of \<open>connect\<close>: every key of the remote
  document is written into the local profile. The keys of an object are strings, so
  no write is refused.
\<close>

fun mergeRemote :: "(string \<times> 'v) list \<Rightarrow> 'v controller \<Rightarrow> 'v controller" where
  "mergeRemote [] st = st"
| "mergeRemote ((k, v) # rest) st =
     (case storePut (Some k) v st of Inl e \<Rightarrow> st | Inr st' \<Rightarrow> mergeRemote rest st')"

definition syncFromFirebase :: "bool \<Rightarrow> 'v controller \<Rightarrow> 'v controller" where
  "syncFromFirebase ok st0 =
     (let st = st0\<lparr> log := log st0 @ [LoadMemoryFromFirebase] \<rparr>
      in case loadMemoryFromFirebase ok (firestore st) of
           None \<Rightarrow> st
         | Some fbMemory \<Rightarrow> mergeRemote fbMemory st)"

text \<open>\<open>initAudioContexts\<close>, when it succeeds: a context that is open is reused.\<close>

definition initAudioContexts :: "setup_env \<Rightarrow> 'v controller \<Rightarrow> 'v controller" where
  "initAudioContexts env st =
     st\<lparr> audioContextRef :=
           (case audioContextRef st of None \<Rightarrow> Some (outputContext env) | Some ctx \<Rightarrow> Some ctx),
         audioInputContextRef :=
           (case audioInputContextRef st of None \<Rightarrow> Some (inputContext env) | Some ctx \<Rightarrow> Some ctx) \<rparr>"

text \<open>
  \<open>connect(isReconnect)\<close>, from its call to the call of \<open>ai.live.connect\<close>. The
  remote document is read only when \<open>isReconnect\<close> is false. The devices are reused
  when they are open.
\<close>

definition connect :: "setup_env \<Rightarrow> bool \<Rightarrow> 'v controller \<Rightarrow> 'v controller" where
  "connect env isReconnect st0 =
     (let st = st0\<lparr> errorMessage := [] \<rparr>
      in if apiKey st = [] then st\<lparr> errorMessage := ''API Key is missing.'', connectionState := ERROR \<rparr>
         else
           let st1 = st\<lparr> connectionState := (if isReconnect then RECONNECTING else CONNECTING) \<rparr>
           in if \<not> audioOk env then setupFailed ''initAudioContexts'' st1
              else if \<not> micStream st1 \<and> \<not> micOk env
              then setupFailed ''getUserMedia'' (initAudioContexts env st1)
              else
                let st2 = (initAudioContexts env st1)\<lparr> micStream := True \<rparr>;
                    st3 = (if \<not> isReconnect then syncFromFirebase (firebaseOk env) st2 else st2);
                    userProfile = getUserProfile (idb st3);
                    recentHistory = getRecentHistory 4 (idb st3);
                    session = counter st3
                in st3\<lparr> memoryData := userProfile,
                        sessionPromiseRef := Some session,
                        counter := Suc session,
                        log := log st3 @ [LiveConnect session userProfile recentHistory] \<rparr>)"

text \<open>
  \<open>callbacks.onopen\<close> of session \<open>session\<close>. It wires a new worklet node whose
  \<open>port.onmessage\<close> sends to this session and encodes from the rate the input context
  reports, and disconnects the old one.
\<close>

definition onopen :: "nat \<Rightarrow> 'v controller \<Rightarrow> 'v controller" where
  "onopen session st0 =
     (let st = st0\<lparr> connectionState := CONNECTED, isIntentionalClose := False \<rparr>
      in case audioInputContextRef st of
           None \<Rightarrow> st
         | Some ctx \<Rightarrow> st\<lparr> workletPort := Some (session, ctx_sampleRate ctx) \<rparr>)"

text \<open>
  \<open>workletNode.port.onmessage\<close>: one chunk of the capture worklet. An exception of
  the encoder leaves the handler before any send.
\<close>

definition workletMessage :: "rat list \<Rightarrow> 'v controller \<Rightarrow> 'v controller" where
  "workletMessage inputData st =
     (case workletPort st of
        None \<Rightarrow> st
      | Some (session, inputSampleRate) \<Rightarrow>
          (case float32To16BitPCM inputData inputSampleRate of
             Inl e \<Rightarrow> st
           | Inr pcmBlob \<Rightarrow> st\<lparr> log := log st @ [SendRealtimeInput session pcmBlob] \<rparr>))"

text \<open>
  The loop over \<open>message.toolCall.functionCalls\<close>. A rejected \<open>updateUserMemory\<close>
  leaves \<open>onmessage\<close> by an exception: the result is then flagged False.
\<close>

fun handleFunctionCalls ::
  "'v FunctionCall list \<Rightarrow> FunctionResponse list \<Rightarrow> 'v controller
     \<Rightarrow> bool \<times> FunctionResponse list \<times> 'v controller" where
  "handleFunctionCalls [] responses st = (True, responses, st)"
| "handleFunctionCalls (fc # fcs) responses st =
     (if fc_name fc = ''update_user_memory'' then
        (case storePut (arg_key fc) (arg_value fc) st of
           Inl e \<Rightarrow> (False, responses, st)
         | Inr st1 \<Rightarrow>
             let newProfile = getUserProfile (idb st1);
                 st2 = st1\<lparr> memoryData := newProfile,
                            pendingSaves := pendingSaves st1 @ [newProfile],
                            log := log st1 @ [SaveMemoryToFirebase newProfile] \<rparr>
             in handleFunctionCalls fcs
                  (responses @ [\<lparr> resp_id = fc_id fc, resp_name = fc_name fc, resp_result = ''Saved.'' \<rparr>])
                  st2)
      else handleFunctionCalls fcs responses st)"

definition handleToolCall ::
  "nat \<Rightarrow> 'v FunctionCall list \<Rightarrow> 'v controller \<Rightarrow> bool \<times> 'v controller" where
  "handleToolCall session fcs st =
     (case handleFunctionCalls fcs [] st of
        (completed, responses, st1) \<Rightarrow>
          (completed,
           if completed \<and> responses \<noteq> []
           then st1\<lparr> log := log st1 @ [SendToolResponse session responses] \<rparr>
           else st1))"

text \<open>\<open>AudioBuffer.duration\<close>, in seconds.\<close>

definition duration :: "AudioBuffer \<Rightarrow> rat" where
  "duration b = rat_of_nat (buffer_length b) / sampleRate b"

text \<open>
  The scheduling of one decoded fragment (the Playback Scheduler's \<open>enqueue\<close>): the
  cursor catches up with the clock, the source starts at the cursor, the cursor
  advances by the fragment's duration.
\<close>

definition enqueue :: "rat \<Rightarrow> AudioBuffer \<Rightarrow> 'v controller \<Rightarrow> 'v controller" where
  "enqueue now audioBuffer st0 =
     (let st = (if nextStartTime st0 < now then st0\<lparr> nextStartTime := now \<rparr> else st0);
          source = counter st
      in st\<lparr> log := log st @ [SourceStart source (nextStartTime st) (duration audioBuffer)],
             activeSources := activeSources st @ [source],
             counter := Suc source,
             nextStartTime := nextStartTime st + duration audioBuffer \<rparr>)"

text \<open>
  The audio part of \<open>onmessage\<close>: an absent or empty payload and a closed output
  context skip it, a fragment that does not decode is dropped by the \<open>catch\<close>.
\<close>

definition handleAudio :: "rat \<Rightarrow> 8 word list option \<Rightarrow> 'v controller \<Rightarrow> 'v controller" where
  "handleAudio now base64Audio st =
     (case base64Audio of
        None \<Rightarrow> st
      | Some uint8 \<Rightarrow>
          if uint8 = [] then st
          else (case audioContextRef st of
                  None \<Rightarrow> st
                | Some ctx \<Rightarrow>
                    (case pcmToAudioBuffer uint8 ctx 24000 1 of
                       Inl e \<Rightarrow> st
                     | Inr audioBuffer \<Rightarrow> enqueue now audioBuffer st)))"

text \<open>The handling of \<open>serverContent.interrupted\<close> (the Playback Scheduler's \<open>interrupt\<close>).\<close>

definition interrupt :: "'v controller \<Rightarrow> 'v controller" where
  "interrupt st =
     st\<lparr> log := log st @ map SourceStop (activeSources st),
         activeSources := [],
         nextStartTime := 0 \<rparr>"

text \<open>\<open>source.onended\<close>.\<close>

definition onended :: "nat \<Rightarrow> 'v controller \<Rightarrow> 'v controller" where
  "onended source st = st\<lparr> activeSources := removeAll source (activeSources st) \<rparr>"

definition handleServerContent :: "message_env \<Rightarrow> ServerContent \<Rightarrow> 'v controller \<Rightarrow> 'v controller" where
  "handleServerContent env sc st0 =
     (let st1 = (case inputTranscription sc of
                   None \<Rightarrow> st0
                 | Some t \<Rightarrow> st0\<lparr> currentInputTrans := currentInputTrans st0 @ t \<rparr>);
          st2 = (case outputTranscription sc of
                   None \<Rightarrow> st1
                 | Some t \<Rightarrow> st1\<lparr> currentOutputTrans := currentOutputTrans st1 @ t \<rparr>);
          st3 = (if turnComplete sc then
                   (let a = (if currentInputTrans st2 \<noteq> []
                             then st2\<lparr> idb := addHistoryItem user (currentInputTrans st2) (dateNow_user env) (idb st2) \<rparr>
                             else st2);
                        b = (if currentOutputTrans a \<noteq> []
                             then a\<lparr> idb := addHistoryItem model (currentOutputTrans a) (dateNow_model env) (idb a) \<rparr>
                             else a)
                    in b\<lparr> currentInputTrans := [], currentOutputTrans := [] \<rparr>)
                 else st2);
          st4 = handleAudio (currentTime env) (inlineData sc) st3
      in if interrupted sc then interrupt st4 else st4)"

text \<open>\<open>callbacks.onmessage\<close> of session \<open>session\<close>, run to its end.\<close>

definition onmessage ::
  "nat \<Rightarrow> message_env \<Rightarrow> 'v LiveServerMessage \<Rightarrow> 'v controller \<Rightarrow> 'v controller" where
  "onmessage session env message st =
     (case (case toolCall message of
              None \<Rightarrow> (True, st)
            | Some fcs \<Rightarrow> handleToolCall session fcs st) of
        (completed, st1) \<Rightarrow>
          if \<not> completed then st1
          else (case serverContent message of
                  None \<Rightarrow> st1
                | Some sc \<Rightarrow> handleServerContent env sc st1))"

text \<open>\<open>callbacks.onclose\<close>.\<close>

definition onclose :: "'v controller \<Rightarrow> 'v controller" where
  "onclose st =
     (if \<not> isIntentionalClose st
      then closeSession (setTimeout_connect 2000 (st\<lparr> connectionState := RECONNECTING \<rparr>))
      else (fullCleanup st)\<lparr> connectionState := DISCONNECTED \<rparr>)"

text \<open>The handler of a rejected session promise.\<close>

definition connectFailed :: "string \<Rightarrow> 'v controller \<Rightarrow> 'v controller" where
  "connectFailed msg st =
     (if \<not> isIntentionalClose st
      then setTimeout_connect 3000 (st\<lparr> connectionState := RECONNECTING \<rparr>)
      else fullCleanup (st\<lparr> errorMessage := msg, connectionState := ERROR \<rparr>))"

text \<open>A pending timeout fires: its callback runs \<open>connect(true)\<close>.\<close>

definition timerFires :: "nat \<Rightarrow> setup_env \<Rightarrow> 'v controller \<Rightarrow> 'v controller" where
  "timerFires t env st =
     (if t \<in> fst ` set (timers st)
      then connect env True (st\<lparr> timers := filter (\<lambda>p. fst p \<noteq> t) (timers st) \<rparr>)
      else st)"

definition manualDisconnect :: "'v controller \<Rightarrow> 'v controller" where
  "manualDisconnect st0 =
     (let st = closeSession (st0\<lparr> isIntentionalClose := True \<rparr>)
      in if isIntentionalClose st then (fullCleanup st)\<lparr> connectionState := DISCONNECTED \<rparr> else st)"

text \<open>The oldest pending \<open>saveMemoryToFirebase\<close> call completes.\<close>

definition saveCompletes :: "bool \<Rightarrow> 'v controller \<Rightarrow> 'v controller" where
  "saveCompletes ok st =
     (case pendingSaves st of
        [] \<Rightarrow> st
      | p # ps \<Rightarrow> st\<lparr> pendingSaves := ps, firestore := saveMemoryToFirebase ok p (firestore st) \<rparr>)"

text \<open>\<open>handleClearMemory\<close>, once the user has agreed to the dialog: both calls are awaited.\<close>

definition handleClearMemory :: "bool \<Rightarrow> 'v controller \<Rightarrow> 'v controller" where
  "handleClearMemory ok st =
     (let db = clearUserMemory (idb st)
      in st\<lparr> idb := db,
             firestore := saveMemoryToFirebase ok [] (firestore st),
             log := log st @ [SaveMemoryToFirebase []],
             memoryData := getUserProfile db \<rparr>)"

section \<open>The sessions' transport\<close>

text \<open>
  A session is a WebSocket of the SDK. It is pending from its \<open>ai.live.connect\<close> call
  until its \<open>onopen\<close>, open from then on until \<open>session.close()\<close> is called on it or
  its \<open>onclose\<close> reports it closed, and a message handed to \<open>sendRealtimeInput\<close>
  reaches the peer when the session is open at that moment. \<open>received\<close> lists what
  has reached the peer, each chunk with the controller state at the time of its send.
\<close>

datatype session_status = Pending | Open | Closing | Closed

record 'v world =
  ctl :: "'v controller"
  sessions :: "(nat \<times> session_status) list"
  received :: "(ConnectionState \<times> nat \<times> Blob) list"

definition boot :: "string \<Rightarrow> 'v IDB \<Rightarrow> 'v Firestore \<Rightarrow> 'v world" where
  "boot k db doc = \<lparr> ctl = mounted k db doc, sessions = [], received = [] \<rparr>"

text \<open>What one call of the controller does to the transport.\<close>

fun observe ::
  "ConnectionState \<Rightarrow> (nat \<times> session_status) list \<times> (ConnectionState \<times> nat \<times> Blob) list
     \<Rightarrow> 'v effect \<Rightarrow> (nat \<times> session_status) list \<times> (ConnectionState \<times> nat \<times> Blob) list" where
  "observe cs (ss, rc) (LiveConnect s profile history) = (AList.update s Pending ss, rc)"
| "observe cs (ss, rc) (SessionClose s) =
     ((if map_of ss s = Some Open then AList.update s Closing ss else ss), rc)"
| "observe cs (ss, rc) (SendRealtimeInput s pcmBlob) =
     (ss, (if map_of ss s = Some Open then rc @ [(cs, s, pcmBlob)] else rc))"
| "observe cs (ss, rc) e = (ss, rc)"

text \<open>A handler has taken the controller to \<open>c\<close>: the calls it has added to the log take effect.\<close>

definition settle :: "'v controller \<Rightarrow> 'v world \<Rightarrow> 'v world" where
  "settle c w =
     (case foldl (observe (connectionState (ctl w))) (sessions w, received w)
             (drop (length (log (ctl w))) (log c)) of
        (ss, rc) \<Rightarrow> \<lparr> ctl = c, sessions = ss, received = rc \<rparr>)"

text \<open>The session promise \<open>closeSession\<close> would wait for is still pending.\<close>

definition awaiting :: "'v world \<Rightarrow> bool" where
  "awaiting w =
     (case sessionPromiseRef (ctl w) of
        None \<Rightarrow> False
      | Some s \<Rightarrow> map_of (sessions w) s = Some Pending)"

text \<open>
  The events of the capture path. In the states DISCONNECTED and ERROR the button
  resets \<open>isIntentionalCloseRef\<close> and calls \<open>connect()\<close>, in the others it calls
  \<open>manualDisconnect()\<close>. A pending session opens; an open or closing session reports
  its close; a pending timeout fires; the worklet posts a chunk. An event is left out
  where it is not possible, and where its handler would wait for a pending session
  promise.
\<close>

datatype event =
    UserConnect setup_env
  | UserDisconnect
  | SessionOpens nat
  | SessionCloses nat
  | TimerFires nat setup_env
  | Chunk "rat list"

fun step :: "event \<Rightarrow> 'v world \<Rightarrow> 'v world" where
  "step (UserConnect env) w =
     (if connectionState (ctl w) = DISCONNECTED \<or> connectionState (ctl w) = ERROR
      then settle (connect env False ((ctl w)\<lparr> isIntentionalClose := False \<rparr>)) w else w)"
| "step UserDisconnect w =
     (if connectionState (ctl w) = DISCONNECTED \<or> connectionState (ctl w) = ERROR \<or> awaiting w
      then w else settle (manualDisconnect (ctl w)) w)"
| "step (SessionOpens s) w =
     (if map_of (sessions w) s = Some Pending
      then settle (onopen s (ctl w)) (w\<lparr> sessions := AList.update s Open (sessions w) \<rparr>)
      else w)"
| "step (SessionCloses s) w =
     (if (map_of (sessions w) s = Some Open \<or> map_of (sessions w) s = Some Closing) \<and> \<not> awaiting w
      then settle (onclose (ctl w)) (w\<lparr> sessions := AList.update s Closed (sessions w) \<rparr>)
      else w)"
| "step (TimerFires t env) w = settle (timerFires t env (ctl w)) w"
| "step (Chunk inputData) w = settle (workletMessage inputData (ctl w)) w"

fun run :: "event list \<Rightarrow> 'v world \<Rightarrow> 'v world" where
  "run [] w = w"
| "run (e # es) w = run es (step e w)"

text \<open>A host that grants everything, with an input context at 16 kHz.\<close>

abbreviation grantingHost :: setup_env where
  "grantingHost \<equiv>
     \<lparr> audioOk = True,
       outputContext = \<lparr> ctx_sampleRate = 24000, ctx_maxChannels = 32, ctx_minRate = 8000, ctx_maxRate = 96000 \<rparr>,
       inputContext = \<lparr> ctx_sampleRate = 16000, ctx_maxChannels = 32, ctx_minRate = 8000, ctx_maxRate = 96000 \<rparr>,
       micOk = True, firebaseOk = True \<rparr>"

section \<open>Properties of the codec\<close>

lemma length_int16_to_bytes: "length (int16_to_bytes ws) = 2 * length ws"
  by (induction ws) simp_all

lemma length_bytes_to_int16: "length (bytes_to_int16 bs) = length bs div 2"
  by (induction bs rule: bytes_to_int16.induct) simp_all

lemma Math_round_near_floor: "\<bar>Math_round x - \<lfloor>x\<rfloor>\<bar> \<le> 1"
proof -
  have "\<lfloor>x\<rfloor> \<le> \<lfloor>x + 1 / 2\<rfloor>" by (rule floor_mono) simp
  moreover have "\<lfloor>x + 1 / 2\<rfloor> \<le> \<lfloor>x + 1\<rfloor>" by (rule floor_mono) simp
  ultimately show ?thesis by (simp add: Math_round_def)
qed

lemma Math_round_nonneg: "0 \<le> x \<Longrightarrow> 0 \<le> Math_round x"
  by (simp add: Math_round_def)

lemma Math_round_positive: "1 \<le> Math_round x \<longleftrightarrow> 1 / 2 \<le> x"
proof -
  have "1 \<le> \<lfloor>x + 1 / 2\<rfloor> \<longleftrightarrow> 1 \<le> x + 1 / 2"
    using le_floor_iff [of 1 "x + 1 / 2"] by simp
  then show ?thesis by (auto simp add: Math_round_def)
qed

lemma downsampleBuffer_length:
  assumes "t < r" and "0 < t"
  shows "\<exists>ys. downsampleBuffer xs r t = Inr ys \<and>
           int (length ys) = Math_round (rat_of_nat (length xs) * t / r)"
proof -
  have "0 \<le> rat_of_nat (length xs) / (r / t)" using assms by simp
  then have "0 \<le> Math_round (rat_of_nat (length xs) / (r / t))" by (rule Math_round_nonneg)
  then show ?thesis using assms by (simp add: downsampleBuffer_def Let_def)
qed

lemma createBuffer_mono:
  assumes "conforming ctx" and "8000 \<le> r" and "r \<le> 96000"
  shows "createBuffer ctx (Suc 0) n r =
           (if n = 0 then Inl (NotSupportedError ''createBuffer: argument outside its nominal range'')
            else Inr \<lparr> sampleRate = r, channelData = [replicate n 0] \<rparr>)"
  using assms by (auto simp add: createBuffer_def conforming_def)

lemma pcmToAudioBuffer_mono_length:
  assumes "conforming ctx" and "8000 \<le> r" and "r \<le> 96000" and "ws \<noteq> []"
  shows "\<exists>b. pcmToAudioBuffer (int16_to_bytes ws) ctx r 1 = Inr b \<and> buffer_length b = length ws"
proof -
  have len: "length (bytes_to_int16 (int16_to_bytes ws)) = length ws"
    by (simp add: length_int16_to_bytes length_bytes_to_int16)
  with assms(4) have "createBuffer ctx (Suc 0) (length (bytes_to_int16 (int16_to_bytes ws))) r =
                        Inr \<lparr> sampleRate = r, channelData = [replicate (length ws) 0] \<rparr>"
    using createBuffer_mono [OF assms(1-3)] by simp
  then show ?thesis
    by (simp add: pcmToAudioBuffer_def Let_def buffer_length_def length_int16_to_bytes len)
qed

lemma pcmToAudioBuffer_empty:
  assumes "conforming ctx" and "8000 \<le> r" and "r \<le> 96000"
  shows "pcmToAudioBuffer [] ctx r 1 =
           Inl (NotSupportedError ''createBuffer: argument outside its nominal range'')"
  using assms by (simp add: pcmToAudioBuffer_def createBuffer_mono)

text \<open>
  Claim C7, as amended. On a host whose audio context accepts mono buffers at the
  target rate, for every sample array and every input rate of at least 16000,
  \<open>float32To16BitPCM\<close> returns a blob. When the encoded chunk is not empty, that is
  when \<open>length * 16000 / inputRate\<close> is at least one half, \<open>pcmToAudioBuffer\<close> decodes
  its bytes as mono at the target rate, and the number of frames of the decoded buffer
  differs by at most one from the floor of \<open>length * 16000 / inputRate\<close>. Otherwise the
  chunk has no byte and the decoder fails: \<open>createBuffer\<close> refuses a buffer of no frame.
\<close>

theorem roundtrip_sample_count:
  assumes "16000 \<le> inputRate" and "conforming ctx"
  shows "\<exists>pcmBlob.
           float32To16BitPCM samples inputRate = Inr pcmBlob \<and>
           (if 1 / 2 \<le> rat_of_nat (length samples) * 16000 / inputRate
            then \<exists>audioBuffer.
                   pcmToAudioBuffer (data pcmBlob) ctx targetSampleRate 1 = Inr audioBuffer \<and>
                   \<bar>int (buffer_length audioBuffer)
                      - \<lfloor>rat_of_nat (length samples) * 16000 / inputRate\<rfloor>\<bar> \<le> 1
            else data pcmBlob = [] \<and>
                 pcmToAudioBuffer (data pcmBlob) ctx targetSampleRate 1 =
                   Inl (NotSupportedError ''createBuffer: argument outside its nominal range''))"
proof -
  let ?x = "rat_of_nat (length samples) * 16000 / inputRate"
  have "\<exists>ys. downsampleBuffer samples inputRate targetSampleRate = Inr ys \<and>
             (1 \<le> int (length ys) \<longleftrightarrow> 1 / 2 \<le> ?x) \<and>
             \<bar>int (length ys) - \<lfloor>?x\<rfloor>\<bar> \<le> 1"
  proof (cases "inputRate = 16000")
    case True
    have "(1 \<le> int (length samples)) = (1 / 2 \<le> rat_of_nat (length samples))"
      by (cases "length samples") simp_all
    with True show ?thesis
      by (simp add: downsampleBuffer_def targetSampleRate_def)
  next
    case False
    with assms have "targetSampleRate < inputRate" "0 < targetSampleRate"
      by (simp_all add: targetSampleRate_def)
    then obtain ys where ys: "downsampleBuffer samples inputRate targetSampleRate = Inr ys"
        "int (length ys) = Math_round (rat_of_nat (length samples) * targetSampleRate / inputRate)"
      using downsampleBuffer_length by blast
    from ys(2) have len: "int (length ys) = Math_round ?x" by (simp add: targetSampleRate_def)
    have "(1 \<le> int (length ys)) = (1 / 2 \<le> ?x)"
      unfolding len by (rule Math_round_positive)
    moreover have "\<bar>int (length ys) - \<lfloor>?x\<rfloor>\<bar> \<le> 1"
      unfolding len by (rule Math_round_near_floor)
    ultimately show ?thesis using ys(1) by blast
  qed
  then obtain ys where ys: "downsampleBuffer samples inputRate targetSampleRate = Inr ys"
      "1 \<le> int (length ys) \<longleftrightarrow> 1 / 2 \<le> ?x" "\<bar>int (length ys) - \<lfloor>?x\<rfloor>\<bar> \<le> 1"
    by blast
  have enc: "float32To16BitPCM samples inputRate =
               Inr \<lparr> data = int16_to_bytes (map quantize ys), mimeType = ''audio/pcm;rate=16000'' \<rparr>"
    using ys(1) by (simp add: float32To16BitPCM_def)
  have rate: "8000 \<le> targetSampleRate" "targetSampleRate \<le> 96000"
    by (simp_all add: targetSampleRate_def)
  show ?thesis
  proof (cases "1 / 2 \<le> ?x")
    case True
    with ys(2) have "map quantize ys \<noteq> []" by auto
    from pcmToAudioBuffer_mono_length [OF assms(2) rate this]
    obtain b where "pcmToAudioBuffer (int16_to_bytes (map quantize ys)) ctx targetSampleRate 1 = Inr b"
      "buffer_length b = length (map quantize ys)" by blast
    with True ys(3) enc show ?thesis by simp
  next
    case False
    with ys(2) have "ys = []" by (cases ys) auto
    with False enc pcmToAudioBuffer_empty [OF assms(2) rate] show ?thesis by simp
  qed
qed

theorem roundtrip_sample_count_witness:
  "(16000::rat) \<le> 48000 \<and>
   conforming \<lparr> ctx_sampleRate = 24000, ctx_maxChannels = 32, ctx_minRate = 8000, ctx_maxRate = 96000 \<rparr> \<and>
   (1::rat) / 2 \<le> rat_of_nat (length [0, 1 / 2, - 1 / 2, 1, - 1 :: rat]) * 16000 / 48000 \<and>
   float32To16BitPCM [0, 1 / 2, - 1 / 2, 1, - 1] 48000
     = Inr \<lparr> data = [0, 0, 255, 127], mimeType = ''audio/pcm;rate=16000'' \<rparr> \<and>
   pcmToAudioBuffer [0, 0, 255, 127]
       \<lparr> ctx_sampleRate = 24000, ctx_maxChannels = 32, ctx_minRate = 8000, ctx_maxRate = 96000 \<rparr>
       targetSampleRate 1
     = Inr \<lparr> sampleRate = 16000, channelData = [[0, 32767 / 32768]] \<rparr> \<and>
   \<lfloor>rat_of_nat (length [0, 1 / 2, - 1 / 2, 1, - 1 :: rat]) * 16000 / 48000\<rfloor> = 1"
  using roundtrip_sample_count
    [of 48000 "\<lparr> ctx_sampleRate = 24000, ctx_maxChannels = 32, ctx_minRate = 8000, ctx_maxRate = 96000 \<rparr>"
        "[0, 1 / 2, - 1 / 2, 1, - 1]"]
proof -
  have "(16000::rat) \<le> 48000 \<and>
   conforming \<lparr> ctx_sampleRate = 24000, ctx_maxChannels = 32, ctx_minRate = 8000, ctx_maxRate = 96000 \<rparr> \<and>
   (1::rat) / 2 \<le> rat_of_nat (length [0, 1 / 2, - 1 / 2, 1, - 1 :: rat]) * 16000 / 48000 \<and>
   float32To16BitPCM [0, 1 / 2, - 1 / 2, 1, - 1] 48000
     = Inr \<lparr> data = [0, 0, 255, 127], mimeType = ''audio/pcm;rate=16000'' \<rparr> \<and>
   pcmToAudioBuffer [0, 0, 255, 127]
       \<lparr> ctx_sampleRate = 24000, ctx_maxChannels = 32, ctx_minRate = 8000, ctx_maxRate = 96000 \<rparr>
       targetSampleRate 1
     = Inr \<lparr> sampleRate = 16000, channelData = [[0, 32767 / 32768]] \<rparr> \<and>
   \<lfloor>rat_of_nat (length [0, 1 / 2, - 1 / 2, 1, - 1 :: rat]) * 16000 / 48000\<rfloor> = 1"
    by code_simp
  then show ?thesis by blast
qed

text \<open>
  Claim C7, as stated, fails on an input that encodes to an empty chunk: one sample
  at 48000 Hz gives \<open>Math.round(1 / 3) = 0\<close> samples at 16000 Hz, and decoding the empty
  chunk ends in the \<open>NotSupportedError\<close> of \<open>createBuffer\<close>, not in a buffer of 0 or 1
  frames.
\<close>

theorem roundtrip_empty_chunk_counterexample:
  "float32To16BitPCM [1 / 2] 48000 = Inr \<lparr> data = [], mimeType = ''audio/pcm;rate=16000'' \<rparr> \<and>
   pcmToAudioBuffer []
       \<lparr> ctx_sampleRate = 24000, ctx_maxChannels = 32, ctx_minRate = 8000, ctx_maxRate = 96000 \<rparr>
       targetSampleRate 1
     = Inl (NotSupportedError ''createBuffer: argument outside its nominal range'')"
  by code_simp

text \<open>
  Claim C8. For every sample array and every input rate below 16000,
  \<open>float32To16BitPCM\<close> returns no blob: it fails with the error
  \<open>Upsampling is not supported\<close>.
\<close>

theorem upsampling_rejected:
  assumes "inputRate < 16000"
  shows "float32To16BitPCM samples inputRate = Inl (Error ''Upsampling is not supported'')"
  using assms by (simp add: float32To16BitPCM_def downsampleBuffer_def targetSampleRate_def)

theorem upsampling_rejected_witness:
  "(8000::rat) < 16000 \<and>
   float32To16BitPCM [0, 1 / 2, - 1] 8000 = Inl (Error ''Upsampling is not supported'')"
  using upsampling_rejected [of 8000 "[0, 1 / 2, - 1]"] by simp

section \<open>Properties of the local store\<close>

lemma set_idb_put_subset: "set (idb_put kp r xs) \<subseteq> insert r (set xs)"
  by (induction xs) auto

lemma idb_ok_put: "idb_ok kp xs \<Longrightarrow> idb_ok kp (idb_put kp r xs)"
proof (induction xs)
  case Nil
  then show ?case by (simp add: idb_ok_def)
next
  case (Cons x xs)
  have sub: "set (idb_put kp r xs) \<subseteq> insert r (set xs)" by (rule set_idb_put_subset)
  from Cons show ?case using sub
    by (auto simp add: idb_ok_def)
qed

lemma map_of_idb_put:
  "idb_ok fst xs \<Longrightarrow> map_of (idb_put fst (k, v) xs) = (map_of xs)(k \<mapsto> v)"
proof (induction xs)
  case Nil
  then show ?case by simp
next
  case (Cons x xs)
  then have ok: "idb_ok fst xs" and above: "\<forall>y\<in>set xs. fst x < fst y"
    by (simp_all add: idb_ok_def)
  show ?case
  proof (cases "k < fst x")
    case True
    then show ?thesis by (cases x) (auto simp add: fun_eq_iff)
  next
    case False
    show ?thesis
    proof (cases "k = fst x")
      case True
      then show ?thesis by (cases x) (auto simp add: fun_eq_iff)
    next
      case ne: False
      with False Cons.IH [OF ok] show ?thesis
        by (cases x) (auto simp add: fun_eq_iff)
    qed
  qed
qed

lemma idb_ok_distinct: "idb_ok kp xs \<Longrightarrow> distinct (map kp xs)"
  by (simp add: idb_ok_def strict_sorted_iff)

lemma map_of_insert_index:
  "map_of obj k = None \<Longrightarrow> map_of (insert_index n k v obj) = (map_of obj)(k \<mapsto> v)"
proof (induction obj)
  case Nil
  then show ?case by simp
next
  case (Cons p obj)
  obtain k' v' where p: "p = (k', v')" by (cases p)
  with Cons.prems have ne: "k' \<noteq> k" and rest: "map_of obj k = None"
    by (auto split: if_splits)
  from Cons.IH [OF rest] ne show ?case
    by (auto simp add: p fun_eq_iff split: option.splits)
qed

lemma map_of_js_set:
  "map_of (js_set k v obj) = (if k = ''__proto__'' then map_of obj else (map_of obj)(k \<mapsto> v))"
proof (cases "k = ''__proto__''")
  case True
  then show ?thesis by (simp add: js_set_def)
next
  case False
  show ?thesis
  proof (cases "map_of obj k")
    case None
    with False show ?thesis
      by (cases "array_index k")
        (auto simp add: js_set_def map_of_insert_index fun_eq_iff map_add_def split: option.splits)
  next
    case (Some old)
    with False show ?thesis by (simp add: js_set_def update_conv')
  qed
qed

lemma map_of_profile_fold:
  assumes "distinct (map fst xs)" and "\<forall>x\<in>set xs. map_of acc (fst x) = None"
  shows "map_of (foldl (\<lambda>profile item. js_set (fst item) (snd item) profile) acc xs) k =
           (if k = ''__proto__'' then map_of acc k
            else (case map_of xs k of None \<Rightarrow> map_of acc k | Some v \<Rightarrow> Some v))"
  using assms
proof (induction xs arbitrary: acc)
  case Nil
  then show ?case by simp
next
  case (Cons x xs)
  obtain k0 v0 where x: "x = (k0, v0)" by (cases x)
  let ?acc = "js_set k0 v0 acc"
  from Cons.prems x have fresh: "k0 \<notin> fst ` set xs" and d: "distinct (map fst xs)" by auto
  have none: "\<forall>y\<in>set xs. map_of ?acc (fst y) = None"
  proof
    fix y assume y: "y \<in> set xs"
    with fresh have "fst y \<noteq> k0" by auto
    moreover from Cons.prems(2) y have "map_of acc (fst y) = None" by simp
    ultimately show "map_of ?acc (fst y) = None" by (simp add: map_of_js_set)
  qed
  have xs_k0: "map_of xs k0 = None" using fresh by (simp add: map_of_eq_None_iff)
  have acc_k0: "map_of acc k0 = None" using Cons.prems(2) x by simp
  from Cons.IH [OF d none] xs_k0 acc_k0 show ?case
    by (auto simp add: x map_of_js_set split: option.splits)
qed

lemma getUserProfile_lookup:
  assumes "idb_ok fst (user_profile db)"
  shows "map_of (getUserProfile db) k =
           (if k = ''__proto__'' then None else map_of (user_profile db) k)"
  using map_of_profile_fold [of "user_profile db" "[]" k] idb_ok_distinct [OF assms]
  by (simp add: getUserProfile_def split: option.splits)

lemma profile_after_put:
  assumes "idb_ok fst (user_profile db)" and "k \<noteq> ''__proto__''"
  shows "map_of (getUserProfile (db\<lparr> user_profile := idb_put fst (k, v) (user_profile db) \<rparr>))
           = (map_of (getUserProfile db))(k \<mapsto> v)"
proof
  fix k'
  have ok: "idb_ok fst (user_profile (db\<lparr> user_profile := idb_put fst (k, v) (user_profile db) \<rparr>))"
    using assms(1) by (simp add: idb_ok_put)
  show "map_of (getUserProfile (db\<lparr> user_profile := idb_put fst (k, v) (user_profile db) \<rparr>)) k'
          = ((map_of (getUserProfile db))(k \<mapsto> v)) k'"
    using assms
    by (simp add: getUserProfile_lookup [OF ok] getUserProfile_lookup [OF assms(1)] map_of_idb_put)
qed

lemma db_ok_emptyDB: "db_ok emptyDB"
  by (simp add: db_ok_def idb_ok_def emptyDB_def)

lemma db_ok_updateUserMemory: "db_ok db \<Longrightarrow> updateUserMemory key v db = Inr db' \<Longrightarrow> db_ok db'"
  by (auto simp add: db_ok_def updateUserMemory_def idb_ok_put split: option.splits)

lemma db_ok_addHistoryItem: "db_ok db \<Longrightarrow> db_ok (addHistoryItem r t now db)"
  by (simp add: db_ok_def addHistoryItem_def idb_ok_put)

lemma sort_key_sorted_id: "sorted (map f xs) \<Longrightarrow> sort_key f xs = xs"
  by (induction xs) (auto simp add: insort_is_Cons)

lemma getRecentHistory_last:
  assumes "idb_ok timestamp (conversation_history db)" and "1 \<le> limit"
  shows "getRecentHistory limit db =
           drop (length (conversation_history db) - nat limit) (conversation_history db)"
proof -
  have "sorted (map timestamp (conversation_history db))"
    using assms(1) by (simp add: idb_ok_def strict_sorted_iff)
  then have "sort_key timestamp (conversation_history db) = conversation_history db"
    by (rule sort_key_sorted_id)
  moreover have "nat (max (int (length (conversation_history db)) - limit) 0) =
                 length (conversation_history db) - nat limit"
    using assms(2) by auto
  ultimately show ?thesis using assms(2)
    by (simp add: getRecentHistory_def js_slice_def Let_def)
qed

lemma addHistoryItem_fresh:
  assumes "now \<notin> timestamp ` set (conversation_history db)"
  shows "set (conversation_history (addHistoryItem r t now db)) =
         insert \<lparr> role = r, msg_text = t, timestamp = now \<rparr> (set (conversation_history db))"
proof -
  have "\<And>m. timestamp m \<notin> timestamp ` set xs \<Longrightarrow> set (idb_put timestamp m xs) = insert m (set xs)" for xs :: "ChatMessage list"
    by (induction xs) auto
  then show ?thesis using assms by (simp add: addHistoryItem_def)
qed

text \<open>
  Claim C9. \<open>getRecentHistory\<close> is to return exactly the last \<open>limit\<close> stored entries
  for every limit. For a limit of at least one it does (\<open>getRecentHistory_last\<close>). At
  the limit 0, \<open>slice(-0)\<close> is \<open>slice(0)\<close>: the call returns every stored entry, here
  two of them, where the claim asks for none.
\<close>

theorem getRecentHistory_limit_zero_returns_all:
  "getRecentHistory 0
     (addHistoryItem model ''hello'' 2000 (addHistoryItem user ''hi'' 1000 (emptyDB :: string IDB)))
   = [\<lparr> role = user, msg_text = ''hi'', timestamp = 1000 \<rparr>,
      \<lparr> role = model, msg_text = ''hello'', timestamp = 2000 \<rparr>]"
  by (simp add: getRecentHistory_def js_slice_def addHistoryItem_def emptyDB_def)

text \<open>
  Claim C10. An append is to leave every stored history entry as it is. The store is
  keyed by the timestamp and written with \<open>put\<close>: an entry appended in the millisecond
  of a stored entry replaces it. Here the user's entry is gone after the model's entry
  is appended at the same \<open>Date.now()\<close>, also when the two appends are those of one
  completed turn. An append at a fresh timestamp keeps every entry
  (\<open>addHistoryItem_fresh\<close>).
\<close>

theorem addHistoryItem_same_millisecond_replaces:
  "conversation_history
     (addHistoryItem model ''hello'' 1000 (addHistoryItem user ''hi'' 1000 (emptyDB :: string IDB)))
   = [\<lparr> role = model, msg_text = ''hello'', timestamp = 1000 \<rparr>] \<and>
   conversation_history (idb
     (handleServerContent \<lparr> dateNow_user = 1000, dateNow_model = 1000, currentTime = 0 \<rparr>
        \<lparr> inputTranscription = Some ''hi'', outputTranscription = Some ''hello'',
          turnComplete = True, inlineData = None, interrupted = False \<rparr>
        (mounted ''key'' (emptyDB :: string IDB) None)))
   = [\<lparr> role = model, msg_text = ''hello'', timestamp = 1000 \<rparr>]"
  by (simp add: addHistoryItem_def emptyDB_def handleServerContent_def handleAudio_def mounted_def
      Let_def)

section \<open>Properties of the tool-call handling\<close>

lemma storePut_Some:
  "storePut (Some k) v st =
     Inr (st\<lparr> idb := (idb st)\<lparr> user_profile := idb_put fst (k, v) (user_profile (idb st)) \<rparr>,
               log := log st @ [StorePut k v] \<rparr>)"
  by (simp add: storePut_def updateUserMemory_def)

lemma storePut_None: "storePut None v st = Inl (DataError ''Evaluating the object store's key path did not yield a value'')"
  by (simp add: storePut_def updateUserMemory_def)

lemma handleFunctionCalls_step_update:
  assumes "fc_name fc = ''update_user_memory''" and "arg_key fc = Some k"
  shows "handleFunctionCalls (fc # fcs) rs st =
           handleFunctionCalls fcs
             (rs @ [\<lparr> resp_id = fc_id fc, resp_name = fc_name fc, resp_result = ''Saved.'' \<rparr>])
             (st\<lparr> idb := (idb st)\<lparr> user_profile := idb_put fst (k, arg_value fc) (user_profile (idb st)) \<rparr>,
                  memoryData := getUserProfile
                    ((idb st)\<lparr> user_profile := idb_put fst (k, arg_value fc) (user_profile (idb st)) \<rparr>),
                  pendingSaves := pendingSaves st @
                    [getUserProfile
                       ((idb st)\<lparr> user_profile := idb_put fst (k, arg_value fc) (user_profile (idb st)) \<rparr>)],
                  log := log st @
                    [StorePut k (arg_value fc),
                     SaveMemoryToFirebase
                       (getUserProfile
                          ((idb st)\<lparr> user_profile := idb_put fst (k, arg_value fc) (user_profile (idb st)) \<rparr>))] \<rparr>)"
  using assms by (simp add: storePut_Some Let_def)

lemma handleFunctionCalls_trace:
  assumes "idb_ok fst (user_profile (idb st))"
      and "\<forall>c\<in>set fcs. fc_name c = ''update_user_memory'' \<longrightarrow> arg_key c \<noteq> None"
  shows "\<exists>rs' st' new ps.
           handleFunctionCalls fcs rs st = (True, rs @ rs', st') \<and>
           log st' = log st @ new \<and>
           (\<forall>e\<in>set new. \<forall>s r. e \<noteq> SendToolResponse s r) \<and>
           idb_ok fst (user_profile (idb st')) \<and>
           firestore st' = firestore st \<and>
           pendingSaves st' = pendingSaves st @ ps \<and>
           (\<forall>c\<in>set fcs. fc_name c = ''update_user_memory'' \<longrightarrow>
              (\<exists>pre post p.
                 new = pre @ [StorePut (the (arg_key c)) (arg_value c), SaveMemoryToFirebase p] @ post \<and>
                 (the (arg_key c) \<noteq> ''__proto__'' \<longrightarrow>
                    map_of p (the (arg_key c)) = Some (arg_value c)) \<and>
                 p \<in> set ps \<and>
                 \<lparr> resp_id = fc_id c, resp_name = fc_name c, resp_result = ''Saved.'' \<rparr> \<in> set rs'))"
  using assms
proof (induction fcs arbitrary: st rs)
  case Nil
  then show ?case by simp
next
  case (Cons fc fcs)
  show ?case
  proof (cases "fc_name fc = ''update_user_memory''")
    case False
    from Cons.prems have "\<forall>c\<in>set fcs. fc_name c = ''update_user_memory'' \<longrightarrow> arg_key c \<noteq> None"
      by simp
    from Cons.IH [OF Cons.prems(1) this, of rs] False show ?thesis
      by auto
  next
    case True
    with Cons.prems obtain k where k: "arg_key fc = Some k" by auto
    define v where "v = arg_value fc"
    define db1 where "db1 = (idb st)\<lparr> user_profile := idb_put fst (k, v) (user_profile (idb st)) \<rparr>"
    define p where "p = getUserProfile db1"
    define st2 where "st2 = st\<lparr> idb := db1, memoryData := p,
                               pendingSaves := pendingSaves st @ [p],
                               log := log st @ [StorePut k v, SaveMemoryToFirebase p] \<rparr>"
    define resp where "resp = \<lparr> resp_id = fc_id fc, resp_name = fc_name fc, resp_result = ''Saved.'' \<rparr>"
    have step: "handleFunctionCalls (fc # fcs) rs st = handleFunctionCalls fcs (rs @ [resp]) st2"
      unfolding st2_def p_def db1_def v_def resp_def
      by (rule handleFunctionCalls_step_update [OF True k])
    have ok2: "idb_ok fst (user_profile (idb st2))"
      using Cons.prems(1) by (simp add: st2_def db1_def idb_ok_put)
    have pk: "k \<noteq> ''__proto__'' \<longrightarrow> map_of p k = Some v"
      using profile_after_put [OF Cons.prems(1), of k v] by (simp add: p_def db1_def)
    from Cons.prems have valid: "\<forall>c\<in>set fcs. fc_name c = ''update_user_memory'' \<longrightarrow> arg_key c \<noteq> None"
      by simp
    from Cons.IH [OF ok2 valid, of "rs @ [resp]"]
    obtain rs' st' new ps where
      run: "handleFunctionCalls fcs (rs @ [resp]) st2 = (True, (rs @ [resp]) @ rs', st')"
      and lg: "log st' = log st2 @ new"
      and noack: "\<forall>e\<in>set new. \<forall>s r. e \<noteq> SendToolResponse s r"
      and ok': "idb_ok fst (user_profile (idb st'))"
      and fs: "firestore st' = firestore st2"
      and pend: "pendingSaves st' = pendingSaves st2 @ ps"
      and each: "\<forall>c\<in>set fcs. fc_name c = ''update_user_memory'' \<longrightarrow>
              (\<exists>pre post p.
                 new = pre @ [StorePut (the (arg_key c)) (arg_value c), SaveMemoryToFirebase p] @ post \<and>
                 (the (arg_key c) \<noteq> ''__proto__'' \<longrightarrow>
                    map_of p (the (arg_key c)) = Some (arg_value c)) \<and>
                 p \<in> set ps \<and>
                 \<lparr> resp_id = fc_id c, resp_name = fc_name c, resp_result = ''Saved.'' \<rparr> \<in> set rs')"
      by blast
    let ?new = "[StorePut k v, SaveMemoryToFirebase p] @ new"
    have a: "handleFunctionCalls (fc # fcs) rs st = (True, rs @ (resp # rs'), st')"
      using step run by simp
    have b: "log st' = log st @ ?new" using lg by (simp add: st2_def)
    have c: "\<forall>e\<in>set ?new. \<forall>s r. e \<noteq> SendToolResponse s r" using noack by simp
    have d: "firestore st' = firestore st" using fs by (simp add: st2_def)
    have e: "pendingSaves st' = pendingSaves st @ (p # ps)" using pend by (simp add: st2_def)
    have f: "\<exists>pre post q.
                 ?new = pre @ [StorePut (the (arg_key c)) (arg_value c), SaveMemoryToFirebase q] @ post \<and>
                 (the (arg_key c) \<noteq> ''__proto__'' \<longrightarrow>
                    map_of q (the (arg_key c)) = Some (arg_value c)) \<and>
                 q \<in> set (p # ps) \<and>
                 \<lparr> resp_id = fc_id c, resp_name = fc_name c, resp_result = ''Saved.'' \<rparr> \<in> set (resp # rs')"
      if "c \<in> set (fc # fcs)" and "fc_name c = ''update_user_memory''" for c
    proof (cases "c = fc")
      case True
      have "?new = [] @ [StorePut (the (arg_key c)) (arg_value c), SaveMemoryToFirebase p] @ new"
        using True k by (simp add: v_def)
      moreover have "the (arg_key c) \<noteq> ''__proto__'' \<longrightarrow> map_of p (the (arg_key c)) = Some (arg_value c)"
        using True k pk by (simp add: v_def)
      moreover have "\<lparr> resp_id = fc_id c, resp_name = fc_name c, resp_result = ''Saved.'' \<rparr> \<in> set (resp # rs')"
        using True by (simp add: resp_def)
      ultimately show ?thesis by (intro exI [of _ "[]"] exI [of _ new] exI [of _ p]) simp
    next
      case False
      with that have "c \<in> set fcs" by simp
      with each that(2) obtain pre post q where
        q: "new = pre @ [StorePut (the (arg_key c)) (arg_value c), SaveMemoryToFirebase q] @ post"
           "the (arg_key c) \<noteq> ''__proto__'' \<longrightarrow> map_of q (the (arg_key c)) = Some (arg_value c)"
           "q \<in> set ps"
           "\<lparr> resp_id = fc_id c, resp_name = fc_name c, resp_result = ''Saved.'' \<rparr> \<in> set rs'"
        by blast
      then show ?thesis
        by (intro exI [of _ "[StorePut k v, SaveMemoryToFirebase p] @ pre"] exI [of _ post] exI [of _ q]) simp
    qed
    show ?thesis
      using a b c ok' d e f by blast
  qed
qed

lemma handleFunctionCalls_rejected:
  assumes "handleFunctionCalls fcs rs st = (False, rs', st')"
    and "\<forall>e\<in>set (log st). \<forall>s r. e \<noteq> SendToolResponse s r"
  shows "\<forall>e\<in>set (log st'). \<forall>s r. e \<noteq> SendToolResponse s r"
  using assms
proof (induction fcs arbitrary: rs st)
  case Nil
  then show ?case by simp
next
  case (Cons fc fcs)
  show ?case
  proof (cases "fc_name fc = ''update_user_memory''")
    case False
    with Cons.prems(1) have "handleFunctionCalls fcs rs st = (False, rs', st')" by simp
    from Cons.IH [OF this Cons.prems(2)] show ?thesis .
  next
    case True
    show ?thesis
    proof (cases "arg_key fc")
      case None
      with True Cons.prems(1) have "st' = st" by (simp add: storePut_None)
      with Cons.prems(2) show ?thesis by simp
    next
      case (Some k)
      note eq = handleFunctionCalls_step_update [OF True Some, of fcs rs st]
      from eq Cons.prems(1) have run: "handleFunctionCalls fcs
             (rs @ [\<lparr> resp_id = fc_id fc, resp_name = fc_name fc, resp_result = ''Saved.'' \<rparr>])
             (st\<lparr> idb := (idb st)\<lparr> user_profile := idb_put fst (k, arg_value fc) (user_profile (idb st)) \<rparr>,
                  memoryData := getUserProfile
                    ((idb st)\<lparr> user_profile := idb_put fst (k, arg_value fc) (user_profile (idb st)) \<rparr>),
                  pendingSaves := pendingSaves st @
                    [getUserProfile
                       ((idb st)\<lparr> user_profile := idb_put fst (k, arg_value fc) (user_profile (idb st)) \<rparr>)],
                  log := log st @
                    [StorePut k (arg_value fc),
                     SaveMemoryToFirebase
                       (getUserProfile
                          ((idb st)\<lparr> user_profile := idb_put fst (k, arg_value fc) (user_profile (idb st)) \<rparr>))] \<rparr>)
              = (False, rs', st')" by simp
      show ?thesis
        by (rule Cons.IH [OF run]) (use Cons.prems(2) in simp)
    qed
  qed
qed

lemma handleToolCall_rejected:
  assumes "handleToolCall session fcs st = (False, st')"
    and "\<forall>e\<in>set (log st). \<forall>s r. e \<noteq> SendToolResponse s r"
  shows "\<forall>e\<in>set (log st'). \<forall>s r. e \<noteq> SendToolResponse s r"
proof -
  obtain c rs st1 where run: "handleFunctionCalls fcs [] st = (c, rs, st1)"
    by (cases "handleFunctionCalls fcs [] st") auto
  with assms(1) have "c = False" "st' = st1"
    by (auto simp add: handleToolCall_def split: if_splits)
  with run assms(2) show ?thesis
    using handleFunctionCalls_rejected [of fcs "[]" st rs st1] by simp
qed

lemma ack_follows_durable_write:
  assumes ok: "db_ok (idb st)"
    and valid: "\<forall>c\<in>set fcs. fc_name c = ''update_user_memory'' \<longrightarrow> arg_key c \<noteq> None"
    and fc: "fc \<in> set fcs" "fc_name fc = ''update_user_memory''" "arg_key fc = Some k"
    and plain: "k \<noteq> ''__proto__''"
  shows "\<exists>st' pre p post rs.
           handleToolCall session fcs st = (True, st') \<and>
           log st' = log st @ pre @ [StorePut k (arg_value fc), SaveMemoryToFirebase p] @ post
                       @ [SendToolResponse session rs] \<and>
           (\<forall>e\<in>set (pre @ post). \<forall>s r. e \<noteq> SendToolResponse s r) \<and>
           map_of p k = Some (arg_value fc) \<and>
           \<lparr> resp_id = fc_id fc, resp_name = fc_name fc, resp_result = ''Saved.'' \<rparr> \<in> set rs \<and>
           p \<in> set (pendingSaves st') \<and>
           firestore st' = firestore st"
proof -
  from ok have "idb_ok fst (user_profile (idb st))" by (simp add: db_ok_def)
  from handleFunctionCalls_trace [OF this valid, of "[]"]
  obtain rs st1 new ps where
    run: "handleFunctionCalls fcs [] st = (True, rs, st1)"
    and lg: "log st1 = log st @ new"
    and noack: "\<forall>e\<in>set new. \<forall>s r. e \<noteq> SendToolResponse s r"
    and fs: "firestore st1 = firestore st"
    and pend: "pendingSaves st1 = pendingSaves st @ ps"
    and each: "\<forall>c\<in>set fcs. fc_name c = ''update_user_memory'' \<longrightarrow>
              (\<exists>pre post p.
                 new = pre @ [StorePut (the (arg_key c)) (arg_value c), SaveMemoryToFirebase p] @ post \<and>
                 (the (arg_key c) \<noteq> ''__proto__'' \<longrightarrow>
                    map_of p (the (arg_key c)) = Some (arg_value c)) \<and>
                 p \<in> set ps \<and>
                 \<lparr> resp_id = fc_id c, resp_name = fc_name c, resp_result = ''Saved.'' \<rparr> \<in> set rs)"
    by auto
  from each fc plain obtain pre post p where
    p: "new = pre @ [StorePut k (arg_value fc), SaveMemoryToFirebase p] @ post"
       "map_of p k = Some (arg_value fc)" "p \<in> set ps"
       "\<lparr> resp_id = fc_id fc, resp_name = fc_name fc, resp_result = ''Saved.'' \<rparr> \<in> set rs"
    by fastforce
  then have ne: "rs \<noteq> []" by auto
  define st' where "st' = st1\<lparr> log := log st1 @ [SendToolResponse session rs] \<rparr>"
  have 1: "handleToolCall session fcs st = (True, st')"
    using run ne by (simp add: handleToolCall_def st'_def)
  have 2: "log st' = log st @ pre @ [StorePut k (arg_value fc), SaveMemoryToFirebase p] @ post
                       @ [SendToolResponse session rs]"
    using lg p(1) by (simp add: st'_def)
  have 3: "\<forall>e\<in>set (pre @ post). \<forall>s r. e \<noteq> SendToolResponse s r"
    using noack p(1) by simp
  have 4: "p \<in> set (pendingSaves st')" using pend p(3) by (simp add: st'_def)
  have 5: "firestore st' = firestore st" using fs by (simp add: st'_def)
  from 1 2 3 p(2) p(4) 4 5 show ?thesis by blast
qed

text \<open>
  Claim C4. The acknowledgement is to be sent only when the profile read back holds
  the written key. For every key but one it is (\<open>ack_follows_durable_write\<close>: the
  completed write, then the profile read back with the key, then the acknowledgement).
  For the key \<open>__proto__\<close> the record is stored, but the object \<open>getUserProfile\<close>
  builds gets no such property: the profile read back and pushed is empty, and
  \<open>Saved.\<close> is sent all the same.
\<close>

theorem ack_sent_for_key_missing_from_profile:
  "handleToolCall 0
     [\<lparr> fc_id = ''call-1'', fc_name = ''update_user_memory'',
         arg_key = Some ''__proto__'', arg_value = ''buy milk'' \<rparr>]
     (mounted ''key'' emptyDB None)
   = (True,
      (mounted ''key'' emptyDB None)
        \<lparr> idb := \<lparr> user_profile = [(''__proto__'', ''buy milk'')], conversation_history = [] \<rparr>,
          memoryData := [],
          pendingSaves := [[]],
          log := [StorePut ''__proto__'' ''buy milk'',
                  SaveMemoryToFirebase [],
                  SendToolResponse 0
                    [\<lparr> resp_id = ''call-1'', resp_name = ''update_user_memory'',
                        resp_result = ''Saved.'' \<rparr>]] \<rparr>) \<and>
   map_of (getUserProfile \<lparr> user_profile = [(''__proto__'', ''buy milk'')], conversation_history = [] \<rparr>)
     ''__proto__'' = None"
  by (simp add: mounted_def emptyDB_def handleToolCall_def storePut_def updateUserMemory_def
      getUserProfile_def js_set_def Let_def)

section \<open>Properties of the remote mirror\<close>

lemma setDoc_merge_fields:
  "\<exists>d. setDoc_merge doc p = Some d \<and>
       map_of d = (case doc of None \<Rightarrow> Map.empty | Some old \<Rightarrow> map_of old) ++ map_of p"
  by (cases doc) (simp_all add: setDoc_merge_def merge_conv')

lemma saveCompletes_merges:
  assumes "pendingSaves w = p # ps"
  shows "\<exists>d. firestore (saveCompletes True w) = Some d \<and>
             map_of d = (case firestore w of None \<Rightarrow> Map.empty | Some old \<Rightarrow> map_of old) ++ map_of p \<and>
             pendingSaves (saveCompletes True w) = ps"
  using assms setDoc_merge_fields [of "firestore w" p]
  by (auto simp add: saveCompletes_def saveMemoryToFirebase_def)

text \<open>
  Claim C2, as amended. Every \<open>update_user_memory\<close> call of a message, whatever the
  state and the calls before and after it, writes \<open>(k, v)\<close> into the local store and
  hands the whole profile read back after that write to \<open>saveMemoryToFirebase\<close>; for a
  key other than \<open>__proto__\<close> that profile is the old one with \<open>k\<close> set to \<open>v\<close>. When
  this push completes, the remote document is the remote document of that moment
  overwritten field by field with the pushed profile: every key of the pushed profile
  has the pushed value, and a key absent from the pushed profile keeps the value the
  remote document had for it.
\<close>

theorem push_merges_into_remote:
  assumes "db_ok (idb st)"
    and "fc_name fc = ''update_user_memory''" and "arg_key fc = Some k"
  shows "\<exists>st1 p.
           handleFunctionCalls (fc # fcs) rs st =
             handleFunctionCalls fcs
               (rs @ [\<lparr> resp_id = fc_id fc, resp_name = fc_name fc, resp_result = ''Saved.'' \<rparr>]) st1 \<and>
           user_profile (idb st1) = idb_put fst (k, arg_value fc) (user_profile (idb st)) \<and>
           p = getUserProfile (idb st1) \<and>
           (k \<noteq> ''__proto__'' \<longrightarrow>
              map_of p = (map_of (getUserProfile (idb st)))(k \<mapsto> arg_value fc)) \<and>
           pendingSaves st1 = pendingSaves st @ [p] \<and>
           log st1 = log st @ [StorePut k (arg_value fc), SaveMemoryToFirebase p] \<and>
           (\<forall>w ps. pendingSaves w = p # ps \<longrightarrow>
              (\<exists>d. firestore (saveCompletes True w) = Some d \<and>
                   map_of d = (case firestore w of None \<Rightarrow> Map.empty | Some old \<Rightarrow> map_of old)
                                ++ map_of p \<and>
                   pendingSaves (saveCompletes True w) = ps))"
proof -
  define db1 where "db1 = (idb st)\<lparr> user_profile := idb_put fst (k, arg_value fc) (user_profile (idb st)) \<rparr>"
  define p where "p = getUserProfile db1"
  define st1 where "st1 = st\<lparr> idb := db1, memoryData := p, pendingSaves := pendingSaves st @ [p],
      log := log st @ [StorePut k (arg_value fc), SaveMemoryToFirebase p] \<rparr>"
  have run: "handleFunctionCalls (fc # fcs) rs st =
               handleFunctionCalls fcs
                 (rs @ [\<lparr> resp_id = fc_id fc, resp_name = fc_name fc, resp_result = ''Saved.'' \<rparr>]) st1"
    unfolding st1_def p_def db1_def by (rule handleFunctionCalls_step_update [OF assms(2,3)])
  have ok: "idb_ok fst (user_profile (idb st))" using assms(1) by (simp add: db_ok_def)
  have mp: "k \<noteq> ''__proto__'' \<longrightarrow> map_of p = (map_of (getUserProfile (idb st)))(k \<mapsto> arg_value fc)"
    unfolding p_def db1_def using profile_after_put [OF ok] by blast
  have "user_profile (idb st1) = idb_put fst (k, arg_value fc) (user_profile (idb st))"
    "p = getUserProfile (idb st1)" "pendingSaves st1 = pendingSaves st @ [p]"
    "log st1 = log st @ [StorePut k (arg_value fc), SaveMemoryToFirebase p]"
    by (simp_all add: st1_def p_def db1_def)
  with run mp saveCompletes_merges show ?thesis by blast
qed

theorem push_merges_into_remote_witness:
  "db_ok (idb (mounted ''key'' emptyDB (Some [(''city'', ''Pune'')]))) \<and>
   handleFunctionCalls
     [\<lparr> fc_id = ''call-1'', fc_name = ''update_user_memory'',
         arg_key = Some ''name'', arg_value = ''Asha'' \<rparr>] []
     (mounted ''key'' emptyDB (Some [(''city'', ''Pune'')]))
   = (True,
      [\<lparr> resp_id = ''call-1'', resp_name = ''update_user_memory'', resp_result = ''Saved.'' \<rparr>],
      (mounted ''key'' emptyDB (Some [(''city'', ''Pune'')]))
        \<lparr> idb := \<lparr> user_profile = [(''name'', ''Asha'')], conversation_history = [] \<rparr>,
          memoryData := [(''name'', ''Asha'')],
          pendingSaves := [[(''name'', ''Asha'')]],
          log := [StorePut ''name'' ''Asha'', SaveMemoryToFirebase [(''name'', ''Asha'')]] \<rparr>) \<and>
   firestore (saveCompletes True
      ((mounted ''key'' emptyDB (Some [(''city'', ''Pune'')]))
        \<lparr> idb := \<lparr> user_profile = [(''name'', ''Asha'')], conversation_history = [] \<rparr>,
          memoryData := [(''name'', ''Asha'')],
          pendingSaves := [[(''name'', ''Asha'')]],
          log := [StorePut ''name'' ''Asha'', SaveMemoryToFirebase [(''name'', ''Asha'')]] \<rparr>))
   = Some [(''city'', ''Pune''), (''name'', ''Asha'')]"
  using push_merges_into_remote
    [of "mounted ''key'' emptyDB (Some [(''city'', ''Pune'')])"
        "\<lparr> fc_id = ''call-1'', fc_name = ''update_user_memory'',
           arg_key = Some ''name'', arg_value = ''Asha'' \<rparr>"
        "''name''" "[]" "[]"]
  by (simp add: db_ok_def idb_ok_def mounted_def emptyDB_def storePut_def updateUserMemory_def
      getUserProfile_def js_set_def array_index_def is_digit_def Let_def saveCompletes_def
      saveMemoryToFirebase_def setDoc_merge_def AList.merge_def)

text \<open>
  Claim C2, as stated, fails: the push is a merge, not a replacement. A session is
  opened (the first connect copies the remote key \<open>city\<close> into the local profile),
  then the user wipes the memory (\<open>handleClearMemory\<close>: the local profile is emptied,
  and the merge of \<open>{}\<close> leaves the remote document as it was). The next tool call
  stores \<open>name\<close>: the pushed profile has the one key \<open>name\<close>, and when the push
  has completed the remote document still has the key \<open>city\<close>.
\<close>

theorem push_keeps_absent_key_counterexample:
  "pendingSaves
     (onmessage 0 \<lparr> dateNow_user = 0, dateNow_model = 0, currentTime = 0 \<rparr>
        \<lparr> toolCall = Some [\<lparr> fc_id = ''call-1'', fc_name = ''update_user_memory'',
                              arg_key = Some ''name'', arg_value = ''Asha'' \<rparr>],
          serverContent = None \<rparr>
        (handleClearMemory True
           (onopen 0 (connect grantingHost False
              (mounted ''key'' emptyDB (Some [(''city'', ''Pune'')]))))))
     = [[(''name'', ''Asha'')]] \<and>
   firestore
     (saveCompletes True
        (onmessage 0 \<lparr> dateNow_user = 0, dateNow_model = 0, currentTime = 0 \<rparr>
           \<lparr> toolCall = Some [\<lparr> fc_id = ''call-1'', fc_name = ''update_user_memory'',
                                 arg_key = Some ''name'', arg_value = ''Asha'' \<rparr>],
             serverContent = None \<rparr>
           (handleClearMemory True
              (onopen 0 (connect grantingHost False
                 (mounted ''key'' emptyDB (Some [(''city'', ''Pune'')])))))))
     = Some [(''city'', ''Pune''), (''name'', ''Asha'')]"
  by code_simp

section \<open>Properties of the capture path\<close>

lemma workletPort_setTimeout_connect [simp]:
  "workletPort (setTimeout_connect d st) = workletPort st"
  by (simp add: setTimeout_connect_def)

lemma workletPort_closeSession [simp]: "workletPort (closeSession st) = workletPort st"
  by (simp add: closeSession_def split: option.split)

lemma connectionState_setTimeout_connect [simp]:
  "connectionState (setTimeout_connect d st) = connectionState st"
  by (simp add: setTimeout_connect_def)

lemma connectionState_closeSession [simp]: "connectionState (closeSession st) = connectionState st"
  by (simp add: closeSession_def split: option.split)




lemma no_send_same_log:
  assumes "log b = log a"
  shows "\<exists>es. log b = log a @ es \<and> (\<forall>e\<in>set es. \<forall>s x. e \<noteq> SendRealtimeInput s x)"
  using assms by simp


















lemma chunk_after_unexpected_close_is_dropped:
  "connectionState (ctl (run [UserConnect grantingHost, SessionOpens 0, SessionCloses 0]
       (boot ''key'' (emptyDB :: string IDB) None))) = RECONNECTING \<and>
   received (run [UserConnect grantingHost, SessionOpens 0, SessionCloses 0, Chunk [0, 1 / 2]]
       (boot ''key'' (emptyDB :: string IDB) None)) = []"
  by code_simp


section \<open>Properties of the reconnection\<close>

lemma onclose_unexpected:
  assumes "\<not> isIntentionalClose st"
  shows "onclose st =
           st\<lparr> connectionState := RECONNECTING,
               timers := timers st @ [(counter st, 2000)],
               retryTimeoutRef := Some (counter st),
               counter := Suc (counter st),
               sessionPromiseRef := None,
               log := log st @ SetTimeout (counter st) 2000 #
                        (case sessionPromiseRef st of None \<Rightarrow> [] | Some s \<Rightarrow> [SessionClose s]) \<rparr>"
  using assms by (cases "sessionPromiseRef st") (simp_all add: onclose_def setTimeout_connect_def closeSession_def)

lemma connect_reconnect_log:
  assumes "apiKey st \<noteq> []" and "\<not> isIntentionalClose st"
  shows "idb (connect env True st) = idb st \<and>
         firestore (connect env True st) = firestore st \<and>
         connectionState (connect env True st) = RECONNECTING \<and>
         (if audioOk env \<and> (micStream st \<or> micOk env)
          then log (connect env True st) =
                 log st @ [LiveConnect (counter st) (getUserProfile (idb st)) (getRecentHistory 4 (idb st))] \<and>
               sessionPromiseRef (connect env True st) = Some (counter st)
          else log (connect env True st) = log st @ [SetTimeout (counter st) 3000])"
  using assms
  by (simp add: connect_def setupFailed_def setTimeout_connect_def initAudioContexts_def Let_def)

lemma connect_first_pulls:
  assumes "apiKey st \<noteq> []" and "audioOk env" and "micStream st \<or> micOk env"
  shows "\<exists>rest. log (connect env False st) = log st @ LoadMemoryFromFirebase # rest"
proof -
  have merge: "\<exists>rest. log (mergeRemote xs s) = log s @ rest" for xs and s :: "'a controller"
  proof (induction xs arbitrary: s)
    case Nil
    then show ?case by simp
  next
    case (Cons x xs)
    obtain k v where x: "x = (k, v)" by (cases x)
    define s1 where "s1 = s\<lparr> idb := (idb s)\<lparr> user_profile := idb_put fst (k, v) (user_profile (idb s)) \<rparr>,
               log := log s @ [StorePut k v] \<rparr>"
    have "mergeRemote (x # xs) s = mergeRemote xs s1"
      by (simp add: x storePut_def updateUserMemory_def s1_def)
    moreover obtain rest where "log (mergeRemote xs s1) = log s1 @ rest" using Cons.IH by blast
    ultimately show ?case by (simp add: s1_def)
  qed
  have sync: "\<exists>rest. log (syncFromFirebase ok s) = log s @ LoadMemoryFromFirebase # rest" for ok and s :: "'a controller"
  proof (cases "loadMemoryFromFirebase ok (firestore s)")
    case None
    then show ?thesis by (simp add: syncFromFirebase_def Let_def)
  next
    case (Some fb)
    obtain rest where "log (mergeRemote fb (s\<lparr> log := log s @ [LoadMemoryFromFirebase] \<rparr>))
                        = log (s\<lparr> log := log s @ [LoadMemoryFromFirebase] \<rparr>) @ rest"
      using merge by blast
    with Some show ?thesis by (simp add: syncFromFirebase_def Let_def)
  qed
  define s2 where "s2 = (initAudioContexts env
                            (st\<lparr> errorMessage := [], connectionState := CONNECTING \<rparr>))
                          \<lparr> micStream := True \<rparr>"
  obtain rest where r: "log (syncFromFirebase (firebaseOk env) s2) = log s2 @ LoadMemoryFromFirebase # rest"
    using sync by blast
  have "log (connect env False st) =
          log (syncFromFirebase (firebaseOk env) s2) @
            [LiveConnect (counter (syncFromFirebase (firebaseOk env) s2))
               (getUserProfile (idb (syncFromFirebase (firebaseOk env) s2)))
               (getRecentHistory 4 (idb (syncFromFirebase (firebaseOk env) s2)))]"
    using assms by (auto simp add: connect_def Let_def s2_def)
  with r show ?thesis by (simp add: s2_def initAudioContexts_def)
qed

text \<open>
  Claim C3. In the state CONNECTED, with the close not intentional, \<open>onclose\<close> sets the
  state to RECONNECTING and registers a timeout of 2000 ms whose callback is
  \<open>connect(true)\<close>. When the timeout fires, that call leaves the local store as it is
  and adds one effect to the log: the \<open>ai.live.connect\<close> call of the reconnect attempt
  when the devices are available, a further timeout otherwise. It does not read the
  remote document, which a first connect reads before anything else.
\<close>

theorem unexpected_close_reconnects_without_pull:
  assumes "connectionState st = CONNECTED" and "\<not> isIntentionalClose st" and "apiKey st \<noteq> []"
  shows "connectionState (onclose st) = RECONNECTING \<and>
         timers (onclose st) = timers st @ [(counter st, 2000)] \<and>
         retryTimeoutRef (onclose st) = Some (counter st) \<and>
         (\<forall>env. timerFires (counter st) env (onclose st)
                  = connect env True ((onclose st)\<lparr> timers := filter (\<lambda>p. fst p \<noteq> counter st) (timers st) \<rparr>)) \<and>
         (\<forall>env. idb (timerFires (counter st) env (onclose st)) = idb st \<and>
                connectionState (timerFires (counter st) env (onclose st)) = RECONNECTING \<and>
                (if audioOk env \<and> (micStream st \<or> micOk env)
                 then log (timerFires (counter st) env (onclose st)) =
                        log (onclose st) @
                          [LiveConnect (Suc (counter st)) (getUserProfile (idb st)) (getRecentHistory 4 (idb st))]
                 else log (timerFires (counter st) env (onclose st)) =
                        log (onclose st) @ [SetTimeout (Suc (counter st)) 3000])) \<and>
         (\<forall>env. audioOk env \<and> (micStream st \<or> micOk env) \<longrightarrow>
            (\<exists>rest. log (connect env False st) = log st @ LoadMemoryFromFirebase # rest))"
proof -
  note oc = onclose_unexpected [OF assms(2)]
  define st1 where "st1 = (onclose st)\<lparr> timers := filter (\<lambda>p. fst p \<noteq> counter st) (timers st) \<rparr>"
  have fire: "timerFires (counter st) env (onclose st) = connect env True st1" for env
    by (simp add: timerFires_def oc st1_def)
  have st1: "apiKey st1 \<noteq> []" "\<not> isIntentionalClose st1" "idb st1 = idb st"
    "counter st1 = Suc (counter st)" "micStream st1 = micStream st" "log st1 = log (onclose st)"
    using assms by (simp_all add: st1_def oc)
  have "connectionState (onclose st) = RECONNECTING"
    "timers (onclose st) = timers st @ [(counter st, 2000)]"
    "retryTimeoutRef (onclose st) = Some (counter st)"
    by (simp_all add: oc)
  moreover have "\<forall>env. timerFires (counter st) env (onclose st) = connect env True st1"
    using fire by simp
  moreover have "\<forall>env. idb (timerFires (counter st) env (onclose st)) = idb st \<and>
                connectionState (timerFires (counter st) env (onclose st)) = RECONNECTING \<and>
                (if audioOk env \<and> (micStream st \<or> micOk env)
                 then log (timerFires (counter st) env (onclose st)) =
                        log (onclose st) @
                          [LiveConnect (Suc (counter st)) (getUserProfile (idb st)) (getRecentHistory 4 (idb st))]
                 else log (timerFires (counter st) env (onclose st)) =
                        log (onclose st) @ [SetTimeout (Suc (counter st)) 3000])"
    using connect_reconnect_log [OF st1(1,2)] st1(3-6) by (simp add: fire)
  moreover have "\<forall>env. audioOk env \<and> (micStream st \<or> micOk env) \<longrightarrow>
            (\<exists>rest. log (connect env False st) = log st @ LoadMemoryFromFirebase # rest)"
    using connect_first_pulls [OF assms(3)] by blast
  ultimately show ?thesis unfolding st1_def by blast
qed

theorem unexpected_close_reconnects_without_pull_witness:
  "connectionState (onopen 0 (connect grantingHost False
        (mounted ''key'' (emptyDB :: string IDB) None))) = CONNECTED \<and>
   \<not> isIntentionalClose (onopen 0 (connect grantingHost False
        (mounted ''key'' (emptyDB :: string IDB) None))) \<and>
   apiKey (onopen 0 (connect grantingHost False
        (mounted ''key'' (emptyDB :: string IDB) None))) \<noteq> [] \<and>
   connectionState (onclose (onopen 0 (connect grantingHost False
        (mounted ''key'' (emptyDB :: string IDB) None)))) = RECONNECTING \<and>
   timers (onclose (onopen 0 (connect grantingHost False
        (mounted ''key'' (emptyDB :: string IDB) None)))) = [(1, 2000)] \<and>
   log (timerFires 1 grantingHost
     (onclose (onopen 0 (connect grantingHost False
        (mounted ''key'' (emptyDB :: string IDB) None)))))
   = [LoadMemoryFromFirebase, LiveConnect 0 [] [], SetTimeout 1 2000, SessionClose 0,
      LiveConnect 2 [] []]"
  using unexpected_close_reconnects_without_pull
    [of "onopen 0 (connect grantingHost False (mounted ''key'' (emptyDB :: string IDB) None))"]
  by (simp add: onopen_def onclose_def connect_def mounted_def emptyDB_def syncFromFirebase_def
      loadMemoryFromFirebase_def getUserProfile_def getRecentHistory_def js_slice_def Let_def
      setTimeout_connect_def closeSession_def timerFires_def initAudioContexts_def)

section \<open>Properties of the playback scheduler\<close>

lemma enqueue_fields:
  "log (enqueue now b st) =
     log st @ [SourceStart (counter st) (max (nextStartTime st) now) (duration b)] \<and>
   nextStartTime (enqueue now b st) = max (nextStartTime st) now + duration b \<and>
   activeSources (enqueue now b st) = activeSources st @ [counter st] \<and>
   counter (enqueue now b st) = Suc (counter st)"
  by (simp add: enqueue_def Let_def max_def)

lemma enqueue_run:
  assumes "fs \<noteq> []"
    and "\<forall>i. 0 < i \<and> i < length fs \<longrightarrow>
           fst (fs ! i) \<le> nextStartTime (foldl (\<lambda>s f. enqueue (fst f) (snd f) s) st (take i fs))"
  shows "log (foldl (\<lambda>s f. enqueue (fst f) (snd f) s) st fs) =
           log st @ map (\<lambda>i. SourceStart (counter st + i)
                                (max (nextStartTime st) (fst (hd fs))
                                   + sum_list (map (\<lambda>f. duration (snd f)) (take i fs)))
                                (duration (snd (fs ! i))))
                        [0..<length fs] \<and>
         nextStartTime (foldl (\<lambda>s f. enqueue (fst f) (snd f) s) st fs) =
           max (nextStartTime st) (fst (hd fs)) + sum_list (map (\<lambda>f. duration (snd f)) fs) \<and>
         counter (foldl (\<lambda>s f. enqueue (fst f) (snd f) s) st fs) = counter st + length fs"
  using assms
proof (induction fs rule: rev_induct)
  case Nil
  then show ?case by simp
next
  case (snoc f fs)
  let ?run = "\<lambda>xs. foldl (\<lambda>s f. enqueue (fst f) (snd f) s) st xs"
  let ?s0 = "max (nextStartTime st) (fst (hd (fs @ [f])))"
  show ?case
  proof (cases "fs = []")
    case True
    then show ?thesis by (simp add: enqueue_fields)
  next
    case False
    have pre: "\<forall>i. 0 < i \<and> i < length fs \<longrightarrow> fst (fs ! i) \<le> nextStartTime (?run (take i fs))"
    proof (intro allI impI)
      fix i assume i: "0 < i \<and> i < length fs"
      then have "0 < i \<and> i < length (fs @ [f])" by simp
      from snoc.prems(2) [rule_format, OF this] i show "fst (fs ! i) \<le> nextStartTime (?run (take i fs))"
        by (simp add: nth_append)
    qed
    note IH = snoc.IH [OF False pre]
    have hd: "hd (fs @ [f]) = hd fs" using False by simp
    have "0 < length fs \<and> length fs < length (fs @ [f])" using False by simp
    from snoc.prems(2) [rule_format, OF this]
    have late: "fst f \<le> nextStartTime (?run fs)" by simp
    have run: "?run (fs @ [f]) = enqueue (fst f) (snd f) (?run fs)" by simp
    have start: "max (nextStartTime (?run fs)) (fst f) =
                   max (nextStartTime st) (fst (hd fs)) + sum_list (map (\<lambda>f. duration (snd f)) fs)"
      using late IH by (simp add: max_def)
    have m: "map (\<lambda>i. SourceStart (counter st + i)
                          (?s0 + sum_list (map (\<lambda>f. duration (snd f)) (take i (fs @ [f]))))
                          (duration (snd ((fs @ [f]) ! i)))) [0..<length fs]
           = map (\<lambda>i. SourceStart (counter st + i)
                          (max (nextStartTime st) (fst (hd fs)) + sum_list (map (\<lambda>f. duration (snd f)) (take i fs)))
                          (duration (snd (fs ! i)))) [0..<length fs]"
      by (rule map_cong) (simp_all add: hd nth_append)
    show ?thesis
      unfolding run using IH start m
      by (simp add: enqueue_fields hd)
  qed
qed

text \<open>
  Claim C5. Fragments are enqueued one after the other, with nothing else in between,
  each with the clock reading of its enqueue; from the second fragment on the clock has
  not passed the cursor. Then the fragments are started in enqueue order, the \<open>i\<close>-th
  at the start of the first plus the durations of the fragments before it; every
  enqueue whose clock reading has not passed the cursor advances the cursor by the
  duration of its fragment, and the cursor ends at the start of the first fragment plus
  all durations.
\<close>

theorem playback_starts_accumulate_durations:
  assumes "fs \<noteq> []"
    and "\<forall>i. 0 < i \<and> i < length fs \<longrightarrow>
           fst (fs ! i) \<le> nextStartTime (foldl (\<lambda>s f. enqueue (fst f) (snd f) s) st (take i fs))"
  shows "log (foldl (\<lambda>s f. enqueue (fst f) (snd f) s) st fs) =
           log st @ map (\<lambda>i. SourceStart (counter st + i)
                                (max (nextStartTime st) (fst (hd fs))
                                   + sum_list (map (\<lambda>f. duration (snd f)) (take i fs)))
                                (duration (snd (fs ! i))))
                        [0..<length fs] \<and>
         (\<forall>i. i < length fs \<and>
              fst (fs ! i) \<le> nextStartTime (foldl (\<lambda>s f. enqueue (fst f) (snd f) s) st (take i fs)) \<longrightarrow>
            nextStartTime (foldl (\<lambda>s f. enqueue (fst f) (snd f) s) st (take (Suc i) fs)) =
              nextStartTime (foldl (\<lambda>s f. enqueue (fst f) (snd f) s) st (take i fs))
                + duration (snd (fs ! i))) \<and>
         nextStartTime (foldl (\<lambda>s f. enqueue (fst f) (snd f) s) st fs) =
           max (nextStartTime st) (fst (hd fs)) + sum_list (map (\<lambda>f. duration (snd f)) fs)"
proof -
  let ?run = "\<lambda>xs. foldl (\<lambda>s f. enqueue (fst f) (snd f) s) st xs"
  have adv: "nextStartTime (?run (take (Suc i) fs)) =
               nextStartTime (?run (take i fs)) + duration (snd (fs ! i))"
    if i: "i < length fs \<and> fst (fs ! i) \<le> nextStartTime (?run (take i fs))" for i
  proof -
    from i have "take (Suc i) fs = take i fs @ [fs ! i]" by (simp add: take_Suc_conv_app_nth)
    then have "?run (take (Suc i) fs) = enqueue (fst (fs ! i)) (snd (fs ! i)) (?run (take i fs))"
      by simp
    with i show ?thesis by (simp add: enqueue_fields max_def)
  qed
  from enqueue_run [OF assms] adv show ?thesis by blast
qed

theorem playback_starts_accumulate_durations_witness:
  "fst ([(1, \<lparr> sampleRate = 4, channelData = [[0, 0]] \<rparr>),
         (5 / 4, \<lparr> sampleRate = 4, channelData = [[0, 0, 0, 0]] \<rparr>)] ! 1)
     \<le> nextStartTime (foldl (\<lambda>s f. enqueue (fst f) (snd f) s)
           (mounted ''key'' (emptyDB :: string IDB) None)
           (take 1 [(1, \<lparr> sampleRate = 4, channelData = [[0, 0]] \<rparr>),
                    (5 / 4, \<lparr> sampleRate = 4, channelData = [[0, 0, 0, 0]] \<rparr>)])) \<and>
   log (foldl (\<lambda>s f. enqueue (fst f) (snd f) s)
          (mounted ''key'' (emptyDB :: string IDB) None)
          [(1, \<lparr> sampleRate = 4, channelData = [[0, 0]] \<rparr>),
           (5 / 4, \<lparr> sampleRate = 4, channelData = [[0, 0, 0, 0]] \<rparr>)])
     = [SourceStart 0 1 (1 / 2), SourceStart 1 (3 / 2) 1] \<and>
   nextStartTime (foldl (\<lambda>s f. enqueue (fst f) (snd f) s)
          (mounted ''key'' (emptyDB :: string IDB) None)
          [(1, \<lparr> sampleRate = 4, channelData = [[0, 0]] \<rparr>),
           (5 / 4, \<lparr> sampleRate = 4, channelData = [[0, 0, 0, 0]] \<rparr>)])
     = 5 / 2"
proof -
  let ?fs = "[(1::rat, \<lparr> sampleRate = 4, channelData = [[0, 0]] \<rparr>),
              (5 / 4, \<lparr> sampleRate = 4, channelData = [[0, 0, 0, 0]] \<rparr>)]"
  let ?st = "mounted ''key'' (emptyDB :: string IDB) None"
  have ne: "?fs \<noteq> []" by simp
  have one: "fst (?fs ! 1) \<le> nextStartTime (foldl (\<lambda>s f. enqueue (fst f) (snd f) s) ?st (take 1 ?fs))"
    by (simp add: enqueue_def mounted_def duration_def buffer_length_def Let_def)
  have h: "\<forall>i. 0 < i \<and> i < length ?fs \<longrightarrow>
             fst (?fs ! i) \<le> nextStartTime (foldl (\<lambda>s f. enqueue (fst f) (snd f) s) ?st (take i ?fs))"
  proof (intro allI impI)
    fix i :: nat assume "0 < i \<and> i < length ?fs"
    then have "i = 1" by simp
    with one show "fst (?fs ! i) \<le> nextStartTime (foldl (\<lambda>s f. enqueue (fst f) (snd f) s) ?st (take i ?fs))"
      by simp
  qed
  from playback_starts_accumulate_durations [OF ne h] one show ?thesis
    by (simp add: mounted_def duration_def buffer_length_def upt_rec)
qed

text \<open>
  Claim C6. The handling of an interruption stops every active source, empties the
  set of active sources and sets the cursor to zero, also at the end of a message that
  carries audio as well. A fragment enqueued next, at a clock reading \<open>now\<close> (the
  audio clock is never negative), starts at \<open>now\<close>, whatever the cursor was before.
\<close>

theorem interrupt_clears_all:
  assumes "0 \<le> now"
  shows "activeSources (interrupt st) = [] \<and>
         nextStartTime (interrupt st) = 0 \<and>
         log (interrupt st) = log st @ map SourceStop (activeSources st) \<and>
         log (enqueue now b (interrupt st)) =
           log (interrupt st) @ [SourceStart (counter st) now (duration b)] \<and>
         (interrupted sc \<longrightarrow>
            activeSources (handleServerContent env sc st) = [] \<and>
            nextStartTime (handleServerContent env sc st) = 0)"
  using assms by (simp add: interrupt_def enqueue_def handleServerContent_def Let_def)

theorem interrupt_clears_all_witness:
  "(0::rat) \<le> 7 \<and>
   activeSources (interrupt (enqueue 1 \<lparr> sampleRate = 4, channelData = [[0, 0]] \<rparr>
        (mounted ''key'' (emptyDB :: string IDB) None))) = [] \<and>
   nextStartTime (interrupt (enqueue 1 \<lparr> sampleRate = 4, channelData = [[0, 0]] \<rparr>
        (mounted ''key'' (emptyDB :: string IDB) None))) = 0 \<and>
   log (interrupt (enqueue 1 \<lparr> sampleRate = 4, channelData = [[0, 0]] \<rparr>
        (mounted ''key'' (emptyDB :: string IDB) None)))
     = [SourceStart 0 1 (1 / 2), SourceStop 0] \<and>
   log (enqueue 7 \<lparr> sampleRate = 4, channelData = [[0, 0]] \<rparr>
          (interrupt (enqueue 1 \<lparr> sampleRate = 4, channelData = [[0, 0]] \<rparr>
             (mounted ''key'' (emptyDB :: string IDB) None))))
     = [SourceStart 0 1 (1 / 2), SourceStop 0, SourceStart 1 7 (1 / 2)] \<and>
   interrupted \<lparr> inputTranscription = None, outputTranscription = None, turnComplete = False,
                 inlineData = None, interrupted = True \<rparr> \<and>
   activeSources (handleServerContent \<lparr> dateNow_user = 0, dateNow_model = 0, currentTime = 7 \<rparr>
        \<lparr> inputTranscription = None, outputTranscription = None, turnComplete = False,
          inlineData = None, interrupted = True \<rparr>
        (enqueue 1 \<lparr> sampleRate = 4, channelData = [[0, 0]] \<rparr>
           (mounted ''key'' (emptyDB :: string IDB) None))) = []"
  using interrupt_clears_all
    [where now = 7
       and st = "enqueue 1 \<lparr> sampleRate = 4, channelData = [[0, 0]] \<rparr> (mounted ''key'' (emptyDB :: string IDB) None)"
       and b = "\<lparr> sampleRate = 4, channelData = [[0, 0]] \<rparr>"
       and sc = "\<lparr> inputTranscription = None, outputTranscription = None, turnComplete = False,
                  inlineData = None, interrupted = True \<rparr>"
       and env = "\<lparr> dateNow_user = 0, dateNow_model = 0, currentTime = 7 \<rparr>"]
  by (simp add: enqueue_def interrupt_def mounted_def duration_def buffer_length_def Let_def)

end
